theory Spec2Isabelle
  imports Complex_Main
begin

section \<open>Data model\<close>

text \<open>
  The rows of the relational store, as declared in the generated database types
  (\<^verbatim>\<open>Database['public']['Tables'][...]['Row']\<close>). A nullable column is an
  \<open>option\<close>; a JavaScript \<^verbatim>\<open>number\<close> read from a JSON payload is a rational.
  The column \<^verbatim>\<open>id\<close> is named \<open>id'\<close>, since \<open>id\<close> is the identity function of HOL.
\<close>

datatype Json =
    JNull
  | JString string
  | JNumber rat
  | JBoolean bool
  | JObject "(string \<times> Json) list"
  | JArray "Json list"

record CmrDocument =
  archived :: bool
  archived_at :: "string option"
  attached_documents :: "string option"
  cash_on_delivery_amount :: "rat option"
  cash_on_delivery_currency :: "string option"
  cmr_number :: "string option"
  consignee_address :: "string option"
  consignee_name :: string
  created_at :: string
  customs_instructions :: "string option"
  dangerous_goods_adr_letter :: "string option"
  dangerous_goods_class :: "string option"
  dangerous_goods_un_number :: "string option"
  declared_value :: "rat option"
  declared_value_currency :: "string option"
  delivery_arrival_at :: "string option"
  delivery_carrier_address :: "string option"
  delivery_carrier_name :: "string option"
  delivery_departure_at :: "string option"
  delivery_extra_services :: "string option"
  delivery_place :: string
  freight_currency :: string
  freight_terms :: "string option"
  freight_total_amount :: "rat option"
  goods_description :: "string option"
  goods_marks_numbers :: "string option"
  id' :: string
  instructions :: "string option"
  is_controlled_temperature :: bool
  is_dangerous_goods :: bool
  is_international :: bool
  loading_arrival_at :: "string option"
  loading_date :: string
  loading_departure_at :: "string option"
  loading_extra_services :: "string option"
  loading_place :: string
  packages_count :: "rat option"
  packaging_type :: "string option"
  pallets_100_120 :: "rat option"
  pallets_80_120 :: "rat option"
  pallets_bacs :: "rat option"
  pallets_delivered_to_consignee :: "rat option"
  pallets_deposited_at :: "string option"
  pallets_europe :: "rat option"
  pallets_final_balance :: "string option"
  pallets_loaded_at_shipper :: "rat option"
  pallets_origin :: "string option"
  pallets_others :: "rat option"
  pallets_returned_by_consignee :: "rat option"
  pallets_returned_to_shipper :: "rat option"
  pallets_rolls :: "rat option"
  principal_address :: "string option"
  principal_name :: "string option"
  requested_delivery_at :: "string option"
  shipper_address :: "string option"
  shipper_name :: string
  status :: string
  temperature_max :: "rat option"
  temperature_min :: "rat option"
  updated_at :: string
  user_id :: string
  vehicle_id :: string
  vehicle_plate :: "string option"
  weight_kg :: "rat option"

record CmrSignature =
  cmr_id :: string
  created_at :: string
  id' :: string
  party_type :: string
  signer_email :: "string option"
  signer_name :: "string option"
  signer_role :: "string option"
  storage_path :: string
  user_id :: string

record CmrReserve =
  cmr_id :: string
  comment :: "string option"
  created_at :: string
  id' :: string
  photo_storage_path :: "string option"
  reserve_type :: string
  side :: string
  user_id :: string

record CmrPhoto =
  cmr_id :: string
  created_at :: string
  id' :: string
  storage_path :: string
  user_id :: string

record Profile =
  billing_adress :: "string option"
  billing_email :: "string option"
  company_address :: string
  company_naf :: "string option"
  company_name :: "string option"
  company_siren :: "string option"
  company_siret :: "string option"
  created_at :: string
  full_name :: "string option"
  id' :: string
  phone :: "string option"
  tax_id :: "string option"

text \<open>
  The payload of an insert into \<^verbatim>\<open>cmr_events\<close>. The columns \<^verbatim>\<open>id\<close> and
  \<^verbatim>\<open>created_at\<close> are filled by the database and are not part of what the
  lifecycle functions write.
\<close>

record CmrEvent =
  cmr_id :: string
  user_id :: string
  type' :: string
  metadata :: Json

section \<open>The store\<close>

text \<open>
  Every call the code makes on the Supabase client is a \<open>store_call\<close>. The store answers
  a call with \<^verbatim>\<open>{ data, error }\<close>; which calls fail is decided by the environment, a
  function from the calls issued so far and the call to the message of its error
  (\<open>None\<close>: the call succeeds), so a call may fail once and succeed later.
  The world holds the tables, the photo bucket and the sequence of calls issued so far.
\<close>

datatype store_call =
    InsertEvent CmrEvent
  | UpdateStatus string string
  | SelectSignatures string string
  | SelectReserves string
  | StorageUpload string string
  | StorageRemove string "string list"
  | InsertPhoto string string string

type_synonym faults = "store_call list \<Rightarrow> store_call \<Rightarrow> string option"

record world =
  cmr_documents :: "CmrDocument list"
  cmr_events :: "CmrEvent list"
  cmr_signatures :: "CmrSignature list"
  cmr_reserves :: "CmrReserve list"
  cmr_photos :: "CmrPhoto list"
  photo_bucket :: "string \<rightharpoonup> string"
  calls :: "store_call list"

text \<open>
  A thrown value: either the error object of a store call, thrown as it is
  (\<^verbatim>\<open>throw eventError\<close>), or a fresh \<^verbatim>\<open>new Error(message)\<close>.
\<close>

datatype error = StoreError string | Error string

definition no_faults :: faults where
  "no_faults = (\<lambda>h c. None)"

definition issue :: "store_call \<Rightarrow> world \<Rightarrow> world" where
  "issue c w = w\<lparr>calls := calls w @ [c]\<rparr>"

text \<open>\<^verbatim>\<open>supabase.from('cmr_events').insert(ev)\<close>: returns the error, if any.\<close>

definition insert_cmr_event :: "faults \<Rightarrow> CmrEvent \<Rightarrow> world \<Rightarrow> string option \<times> world" where
  "insert_cmr_event F ev w =
     (case F (calls w) (InsertEvent ev) of
        Some e \<Rightarrow> (Some e, issue (InsertEvent ev) w)
      | None \<Rightarrow> (None, (issue (InsertEvent ev) w)\<lparr>cmr_events := cmr_events w @ [ev]\<rparr>))"

text \<open>
  \<^verbatim>\<open>supabase.from('cmr_documents').update({ status: s }).eq('id', cmrId)\<close>: every row
  whose id is \<open>cmrId\<close> gets the status; no matching row is not an error.
\<close>

definition update_status :: "faults \<Rightarrow> string \<Rightarrow> string \<Rightarrow> world \<Rightarrow> string option \<times> world" where
  "update_status F cmrId s w =
     (case F (calls w) (UpdateStatus cmrId s) of
        Some e \<Rightarrow> (Some e, issue (UpdateStatus cmrId s) w)
      | None \<Rightarrow>
          (None, (issue (UpdateStatus cmrId s) w)
             \<lparr>cmr_documents :=
                map (\<lambda>d. if CmrDocument.id' d = cmrId then d\<lparr>status := s\<rparr> else d)
                  (cmr_documents w)\<rparr>))"

text \<open>
  \<^verbatim>\<open>from('cmr_signatures').select('id').eq('cmr_id', cmrId).eq('party_type', p).limit(1)\<close>:
  the pair \<^verbatim>\<open>(data, error)\<close>; \<^verbatim>\<open>data\<close> is \<^verbatim>\<open>null\<close> when the call fails.
\<close>

definition select_signatures ::
  "faults \<Rightarrow> string \<Rightarrow> string \<Rightarrow> world \<Rightarrow> (string list option \<times> string option) \<times> world" where
  "select_signatures F cmrId p w =
     (case F (calls w) (SelectSignatures cmrId p) of
        Some e \<Rightarrow> ((None, Some e), issue (SelectSignatures cmrId p) w)
      | None \<Rightarrow>
          ((Some (take 1 (map CmrSignature.id'
                (filter (\<lambda>r. CmrSignature.cmr_id r = cmrId \<and> party_type r = p)
                   (cmr_signatures w)))), None),
           issue (SelectSignatures cmrId p) w))"

text \<open>\<^verbatim>\<open>from('cmr_reserves').select('id').eq('cmr_id', cmrId).limit(1)\<close>.\<close>

definition select_reserves ::
  "faults \<Rightarrow> string \<Rightarrow> world \<Rightarrow> (string list option \<times> string option) \<times> world" where
  "select_reserves F cmrId w =
     (case F (calls w) (SelectReserves cmrId) of
        Some e \<Rightarrow> ((None, Some e), issue (SelectReserves cmrId) w)
      | None \<Rightarrow>
          ((Some (take 1 (map CmrReserve.id'
                (filter (\<lambda>r. CmrReserve.cmr_id r = cmrId) (cmr_reserves w)))), None),
           issue (SelectReserves cmrId) w))"

section \<open>Lifecycle actions (\<open>performCmrAction\<close> and its helpers, signature-upload.ts)\<close>

definition startLoading :: "faults \<Rightarrow> string \<Rightarrow> string \<Rightarrow> world \<Rightarrow> (error + unit) \<times> world" where
  "startLoading F cmrId userId w =
     (let (eventError, w) = insert_cmr_event F
            \<lparr>CmrEvent.cmr_id = cmrId, CmrEvent.user_id = userId, type' = ''loading_start'', metadata = JObject []\<rparr> w
      in case eventError of
           Some e \<Rightarrow> (Inl (StoreError e), w)
         | None \<Rightarrow>
             (let (statusError, w) = update_status F cmrId ''loading'' w
              in case statusError of
                   Some e \<Rightarrow> (Inl (StoreError e), w)
                 | None \<Rightarrow> (Inr (), w)))"

definition endLoading :: "faults \<Rightarrow> string \<Rightarrow> string \<Rightarrow> world \<Rightarrow> (error + unit) \<times> world" where
  "endLoading F cmrId userId w =
     (let ((sigs, sigError), w) = select_signatures F cmrId ''shipper'' w
      in case sigError of
           Some e \<Rightarrow> (Inl (StoreError e), w)
         | None \<Rightarrow>
             if (case sigs of None \<Rightarrow> True | Some rows \<Rightarrow> length rows = 0)
             then (Inl (Error ''Cannot end loading without shipper signature''), w)
             else
               (let (eventError, w) = insert_cmr_event F
                      \<lparr>CmrEvent.cmr_id = cmrId, CmrEvent.user_id = userId, type' = ''loading_end'',
                       metadata = JObject []\<rparr> w
                in case eventError of
                     Some e \<Rightarrow> (Inl (StoreError e), w)
                   | None \<Rightarrow>
                       (let (statusError, w) = update_status F cmrId ''in_transit'' w
                        in case statusError of
                             Some e \<Rightarrow> (Inl (StoreError e), w)
                           | None \<Rightarrow> (Inr (), w))))"

definition startDelivery :: "faults \<Rightarrow> string \<Rightarrow> string \<Rightarrow> world \<Rightarrow> (error + unit) \<times> world" where
  "startDelivery F cmrId userId w =
     (let (eventError, w) = insert_cmr_event F
            \<lparr>CmrEvent.cmr_id = cmrId, CmrEvent.user_id = userId, type' = ''delivery_start'', metadata = JObject []\<rparr> w
      in case eventError of
           Some e \<Rightarrow> (Inl (StoreError e), w)
         | None \<Rightarrow>
             (let (statusError, w) = update_status F cmrId ''ready_to_deliver'' w
              in case statusError of
                   Some e \<Rightarrow> (Inl (StoreError e), w)
                 | None \<Rightarrow> (Inr (), w)))"

definition completeDelivery :: "faults \<Rightarrow> string \<Rightarrow> string \<Rightarrow> world \<Rightarrow> (error + unit) \<times> world" where
  "completeDelivery F cmrId userId w =
     (let ((reserves, reservesError), w) = select_reserves F cmrId w
      in case reservesError of
           Some e \<Rightarrow> (Inl (StoreError e), w)
         | None \<Rightarrow>
             (let hasReserves = (case reserves of None \<Rightarrow> False | Some rs \<Rightarrow> length rs \<noteq> 0);
                  finalStatus = (if hasReserves then ''completed_with_reserves'' else ''completed'');
                  (statusError, w) = update_status F cmrId finalStatus w
              in case statusError of
                   Some e \<Rightarrow> (Inl (StoreError e), w)
                 | None \<Rightarrow>
                     (let (eventError, w) = insert_cmr_event F
                            \<lparr>CmrEvent.cmr_id = cmrId, CmrEvent.user_id = userId, type' = ''delivery_end'',
                             metadata = JObject [(''status'', JString finalStatus),
                                                 (''has_reserves'', JBoolean hasReserves)]\<rparr> w
                      in case eventError of
                           Some e \<Rightarrow> (Inl (StoreError e), w)
                         | None \<Rightarrow> (Inr (), w))))"

text \<open>
  The dispatch on the action tag. The tag is a string at run time; the \<^verbatim>\<open>default\<close>
  branch throws before any store call.
\<close>

definition performCmrAction ::
  "faults \<Rightarrow> string \<Rightarrow> string \<Rightarrow> string \<Rightarrow> world \<Rightarrow> (error + unit) \<times> world" where
  "performCmrAction F cmrId userId type w =
     (if type = ''loading_start'' then startLoading F cmrId userId w
      else if type = ''loading_end'' then endLoading F cmrId userId w
      else if type = ''delivery_start'' then startDelivery F cmrId userId w
      else if type = ''delivery_end'' then completeDelivery F cmrId userId w
      else (Inl (Error (''Unknown CMR action type: '' @ type)), w))"

section \<open>Status helpers (status-helpers.ts)\<close>

definition IN_PROGRESS_STATUSES :: "string list" where
  "IN_PROGRESS_STATUSES =
     [''draft'', ''ready_to_load'', ''loading'', ''in_transit'', ''ready_to_deliver'']"

definition COMPLETED_STATUSES :: "string list" where
  "COMPLETED_STATUSES = [''completed'', ''completed_with_reserves'']"

definition isCompleted :: "string \<Rightarrow> bool" where
  "isCompleted s = (s \<in> set COMPLETED_STATUSES)"

definition isInProgress :: "string \<Rightarrow> bool" where
  "isInProgress s = (s \<in> set IN_PROGRESS_STATUSES)"

text \<open>The seven members of the type \<^verbatim>\<open>CmrStatus\<close>, in the order of its declaration.\<close>

definition CmrStatus :: "string list" where
  "CmrStatus =
     [''draft'', ''ready_to_load'', ''loading'', ''in_transit'', ''ready_to_deliver'',
      ''completed'', ''completed_with_reserves'']"

section \<open>Photo upload (\<open>uploadCmrPhoto\<close>, status-helpers.ts)\<close>

record File =
  name :: string
  bytes :: string

record CmrPhotoWithUrl = CmrPhoto +
  url :: string

text \<open>
  What \<open>uploadCmrPhoto\<close> takes from its environment: \<^verbatim>\<open>Date.now()\<close> in decimal,
  \<^verbatim>\<open>Math.random().toString(36).substring(7)\<close>, the pure \<^verbatim>\<open>getPublicUrl\<close> of the
  storage client (bucket, path), and the defaults the database gives the columns
  \<^verbatim>\<open>id\<close> and \<^verbatim>\<open>created_at\<close> of the inserted row.
\<close>

record upload_env =
  dateNow :: string
  randomString :: string
  getPublicUrl :: "string \<Rightarrow> string \<Rightarrow> string"
  newPhotoId :: string
  newCreatedAt :: string

text \<open>
  \<^verbatim>\<open>storage.from(bucket).upload(path, file, { upsert: false })\<close>: without upsert an
  object already stored at the path is an error.
\<close>

definition storage_upload ::
  "faults \<Rightarrow> string \<Rightarrow> string \<Rightarrow> File \<Rightarrow> world \<Rightarrow> string option \<times> world" where
  "storage_upload F bucket path file w =
     (case F (calls w) (StorageUpload bucket path) of
        Some e \<Rightarrow> (Some e, issue (StorageUpload bucket path) w)
      | None \<Rightarrow>
          if photo_bucket w path \<noteq> None
          then (Some ''The resource already exists'', issue (StorageUpload bucket path) w)
          else (None, (issue (StorageUpload bucket path) w)
                        \<lparr>photo_bucket := (photo_bucket w)(path \<mapsto> bytes file)\<rparr>))"

text \<open>\<^verbatim>\<open>storage.from(bucket).remove(paths)\<close>.\<close>

definition storage_remove ::
  "faults \<Rightarrow> string \<Rightarrow> string list \<Rightarrow> world \<Rightarrow> string option \<times> world" where
  "storage_remove F bucket paths w =
     (case F (calls w) (StorageRemove bucket paths) of
        Some e \<Rightarrow> (Some e, issue (StorageRemove bucket paths) w)
      | None \<Rightarrow>
          (None, (issue (StorageRemove bucket paths) w)
                   \<lparr>photo_bucket :=
                      (\<lambda>p. if p \<in> set paths then None else photo_bucket w p)\<rparr>))"

text \<open>
  \<^verbatim>\<open>from('cmr_photos').insert({...}).select().single()\<close>: the error, or the row as
  inserted.
\<close>

definition insert_cmr_photo ::
  "faults \<Rightarrow> upload_env \<Rightarrow> string \<Rightarrow> string \<Rightarrow> string \<Rightarrow> world
     \<Rightarrow> (string + CmrPhoto) \<times> world" where
  "insert_cmr_photo F E cmrId userId path w =
     (case F (calls w) (InsertPhoto cmrId userId path) of
        Some e \<Rightarrow> (Inl e, issue (InsertPhoto cmrId userId path) w)
      | None \<Rightarrow>
          (let row = \<lparr>CmrPhoto.cmr_id = cmrId, CmrPhoto.created_at = newCreatedAt E,
                      CmrPhoto.id' = newPhotoId E, CmrPhoto.storage_path = path,
                      CmrPhoto.user_id = userId\<rparr>
           in (Inr row, (issue (InsertPhoto cmrId userId path) w)
                          \<lparr>cmr_photos := cmr_photos w @ [row]\<rparr>)))"

text \<open>\<^verbatim>\<open>file.name.split('.').pop()\<close>: what follows the last dot, the whole name if none.\<close>

definition fileExt :: "string \<Rightarrow> string" where
  "fileExt n = rev (takeWhile (\<lambda>c. c \<noteq> CHR ''.'') (rev n))"

definition photoFileName :: "upload_env \<Rightarrow> File \<Rightarrow> string \<Rightarrow> string \<Rightarrow> string" where
  "photoFileName E file cmrId userId =
     userId @ ''/'' @ cmrId @ ''/'' @ dateNow E @ ''_'' @ randomString E @ ''.''
       @ fileExt (name file)"

text \<open>
  The \<^verbatim>\<open>catch\<close> of the function logs and rethrows the error it caught, so the
  thrown value is the one built in the body.
\<close>

definition uploadCmrPhoto ::
  "faults \<Rightarrow> upload_env \<Rightarrow> File \<Rightarrow> string \<Rightarrow> string \<Rightarrow> world
     \<Rightarrow> (error + CmrPhotoWithUrl) \<times> world" where
  "uploadCmrPhoto F E file cmrId userId w =
     (let fileName = photoFileName E file cmrId userId;
          (uploadError, w) = storage_upload F ''cmr-photos'' fileName file w
      in case uploadError of
           Some m \<Rightarrow> (Inl (Error (''Failed to upload photo: '' @ m)), w)
         | None \<Rightarrow>
             (let publicUrl = getPublicUrl E ''cmr-photos'' fileName;
                  (inserted, w) = insert_cmr_photo F E cmrId userId fileName w
              in case inserted of
                   Inl m \<Rightarrow>
                     (let (removeError, w) = storage_remove F ''cmr-photos'' [fileName] w
                      in (Inl (Error (''Failed to save photo record: '' @ m)), w))
                 | Inr photoRecord \<Rightarrow>
                     (Inr (CmrPhoto.extend photoRecord (CmrPhotoWithUrl.fields publicUrl)), w)))"

section \<open>PDF generation (\<open>generateCmrPdf\<close>, pdf-generator.ts)\<close>

subsection \<open>The document object and the environment\<close>

text \<open>
  The jsPDF object is modelled by what the generator does to it: each drawing or state
  call is recorded, with its arguments, on the page that is current when it is made.
  Page numbers start at 1, as in jsPDF; the object is created with one empty page.
\<close>

datatype pdf_op =
    SetFontSize rat
  | SetFont string string
  | SetTextColor nat nat nat
  | SetFillColor nat nat nat
  | SetDrawColor nat nat nat
  | Rect rat rat rat rat string
  | Line rat rat rat rat
  | Text string rat rat "string option"
  | AddImage string string rat rat rat rat

record jsPDF =
  pages :: "pdf_op list list"
  currentPage :: nat

definition new_jsPDF :: jsPDF where
  "new_jsPDF = \<lparr>pages = [[]], currentPage = 1\<rparr>"

definition addPage :: "jsPDF \<Rightarrow> jsPDF" where
  "addPage d = \<lparr>pages = pages d @ [[]], currentPage = length (pages d) + 1\<rparr>"

definition setPage :: "nat \<Rightarrow> jsPDF \<Rightarrow> jsPDF" where
  "setPage i d = d\<lparr>currentPage := i\<rparr>"

definition emit :: "pdf_op \<Rightarrow> jsPDF \<Rightarrow> jsPDF" where
  "emit c d =
     d\<lparr>pages := (pages d)[currentPage d - 1 := pages d ! (currentPage d - 1) @ [c]]\<rparr>"

text \<open>
  What the generator takes from outside the repository: the page size of the A4
  document in millimetres, the text measurement of jsPDF (a method of the object, so it
  may depend on its state), the conversion of a number in a template literal, the
  \<^verbatim>\<open>fr-FR\<close> date formats of the runtime (\<open>formatDate\<close>: year, long month, day;
  \<open>formatDateTime\<close>: the same with hour and minute; \<open>toLocaleString\<close>: the default),
  \<^verbatim>\<open>String.toUpperCase\<close> and \<^verbatim>\<open>String.substring\<close> (which count UTF-16 code
  units, where a \<open>string\<close> of HOL is a list of bytes), the outcome of fetching a URL and
  reading the body as a data URL (\<open>None\<close>: one of these steps throws), and whether
  \<^verbatim>\<open>addImage\<close> accepts the data in the given format (otherwise it throws).
\<close>

record pdf_env =
  pageWidth :: rat
  pageHeight :: rat
  splitTextToSize :: "jsPDF \<Rightarrow> string \<Rightarrow> rat \<Rightarrow> string list"
  numToString :: "rat \<Rightarrow> string"
  formatDate :: "string \<Rightarrow> string"
  formatDateTime :: "string \<Rightarrow> string"
  toLocaleString :: "string \<Rightarrow> string"
  toUpperCase :: "string \<Rightarrow> string"
  substring :: "string \<Rightarrow> nat \<Rightarrow> nat \<Rightarrow> string"
  fetchDataUrl :: "string \<Rightarrow> string option"
  addImageOk :: "string \<Rightarrow> string \<Rightarrow> bool"

record SignatureWithUrl = CmrSignature +
  signatureUrl :: "string option"

record ReserveWithUrl = CmrReserve +
  photoUrl :: "string option"

record PhotoWithUrl = CmrPhoto +
  photoUrl :: "string option"

record GeneratePdfOptions =
  cmr :: CmrDocument
  profile :: "Profile option"
  shipperSignature :: "SignatureWithUrl option"
  consigneeSignature :: "SignatureWithUrl option"
  reserves :: "ReserveWithUrl list"
  photos :: "PhotoWithUrl list"

text \<open>
  The local state of \<open>generateCmrPdf\<close>: the document and the vertical cursor. The field
  \<open>checks\<close> is not a variable of the source: it records the calls of \<open>checkPageBreak\<close>
  made so far, each with the space it was asked for, so that a run shows which writes
  were preceded by a check.
\<close>

record layout =
  pdf :: jsPDF
  yPos :: rat
  checks :: "rat list"

definition leftMargin :: rat where "leftMargin = 15"
definition rightMargin :: rat where "rightMargin = 15"
definition lineHeight :: rat where "lineHeight = 6"

definition contentWidth :: "pdf_env \<Rightarrow> rat" where
  "contentWidth E = pageWidth E - leftMargin - rightMargin"

text \<open>JavaScript truthiness of a nullable string and of a nullable number.\<close>

definition truthy :: "string option \<Rightarrow> bool" where
  "truthy v = (case v of None \<Rightarrow> False | Some t \<Rightarrow> t \<noteq> [])"

definition truthyNum :: "rat option \<Rightarrow> bool" where
  "truthyNum v = (case v of None \<Rightarrow> False | Some n \<Rightarrow> n \<noteq> 0)"

text \<open>The characters outside ASCII that the labels use, in UTF-8.\<close>

definition e_acute :: string where "e_acute = [CHR 0xC3, CHR 0xA9]"
definition e_grave :: string where "e_grave = [CHR 0xC3, CHR 0xA8]"
definition a_grave :: string where "a_grave = [CHR 0xC3, CHR 0xA0]"
definition degree :: string where "degree = [CHR 0xC2, CHR 0xB0]"
definition warning_sign :: string where "warning_sign = [CHR 0xE2, CHR 0x9A, CHR 0xA0]"
definition snowflake :: string where "snowflake = [CHR 0xE2, CHR 0x9D, CHR 0x84]"
definition bullet :: string where "bullet = [CHR 0xE2, CHR 0x80, CHR 0xA2]"

text \<open>\<open>pdf.<call>(...)\<close> and \<open>yPos += d\<close>.\<close>

definition draw :: "pdf_op \<Rightarrow> layout \<Rightarrow> layout" where
  "draw c s = s\<lparr>pdf := emit c (pdf s)\<rparr>"

definition advance :: "rat \<Rightarrow> layout \<Rightarrow> layout" where
  "advance d s = s\<lparr>yPos := yPos s + d\<rparr>"

subsection \<open>The helpers of \<open>generateCmrPdf\<close>\<close>

definition checkPageBreak :: "pdf_env \<Rightarrow> rat \<Rightarrow> layout \<Rightarrow> bool \<times> layout" where
  "checkPageBreak E requiredSpace s =
     (if yPos s + requiredSpace > pageHeight E - 20
      then (True, s\<lparr>pdf := addPage (pdf s), yPos := 20,
                    checks := checks s @ [requiredSpace]\<rparr>)
      else (False, s\<lparr>checks := checks s @ [requiredSpace]\<rparr>))"

definition addText :: "pdf_env \<Rightarrow> string \<Rightarrow> rat \<Rightarrow> bool \<Rightarrow> rat \<Rightarrow> layout \<Rightarrow> layout" where
  "addText E text fontSize isBold xOffset s =
     (let s = snd (checkPageBreak E lineHeight s);
          s = draw (SetFontSize fontSize) s;
          s = draw (SetFont ''helvetica'' (if isBold then ''bold'' else ''normal'')) s;
          s = draw (Text text (leftMargin + xOffset) (yPos s) None) s
      in advance lineHeight s)"

definition addSection :: "pdf_env \<Rightarrow> string \<Rightarrow> string \<Rightarrow> layout \<Rightarrow> layout" where
  "addSection E title boxNumber s =
     (let s = snd (checkPageBreak E (lineHeight + 4) s);
          s = advance 2 s;
          s = draw (SetFontSize 11) s;
          s = draw (SetFont ''helvetica'' ''bold'') s;
          displayTitle = (if boxNumber \<noteq> [] then boxNumber @ ''. '' @ title else title);
          s = draw (Text displayTitle leftMargin (yPos s) None) s;
          s = advance lineHeight s;
          s = draw (Line leftMargin (yPos s - 1) (pageWidth E - rightMargin) (yPos s - 1)) s
      in advance 2 s)"

definition addSubSection :: "pdf_env \<Rightarrow> string \<Rightarrow> rat \<Rightarrow> layout \<Rightarrow> layout" where
  "addSubSection E title fontSize s =
     (let s = snd (checkPageBreak E lineHeight s);
          s = draw (SetFontSize fontSize) s;
          s = draw (SetFont ''helvetica'' ''bold'') s;
          s = draw (Text title leftMargin (yPos s) None) s
      in advance lineHeight s)"

definition addTwoColumns :: "pdf_env \<Rightarrow> string \<Rightarrow> string \<Rightarrow> rat \<Rightarrow> layout \<Rightarrow> layout" where
  "addTwoColumns E left right fontSize s =
     (let s = snd (checkPageBreak E lineHeight s);
          s = draw (SetFontSize fontSize) s;
          s = draw (SetFont ''helvetica'' ''normal'') s;
          s = draw (Text left leftMargin (yPos s) None) s;
          s = draw (Text right (pageWidth E / 2) (yPos s) None) s
      in advance lineHeight s)"

text \<open>
  \<^verbatim>\<open>for (const line of pdf.splitTextToSize(text, width)) addText(line, 9)\<close>: the text
  is measured once, before the first line is written.
\<close>

definition addWrapped :: "pdf_env \<Rightarrow> string \<Rightarrow> rat \<Rightarrow> layout \<Rightarrow> layout" where
  "addWrapped E text width s =
     fold (\<lambda>line. addText E line 9 False 0) (splitTextToSize E (pdf s) text width) s"

text \<open>
  The body of each \<^verbatim>\<open>try\<close> that embeds an image: the page break check, then the
  fetch, the reading as a data URL and \<^verbatim>\<open>addImage\<close>, then the cursor moves below
  the image. When a step throws, the state is the one after the page break check and
  the result is \<open>False\<close>: the \<^verbatim>\<open>catch\<close> runs from there.
\<close>

definition tryAddImage ::
  "pdf_env \<Rightarrow> string \<Rightarrow> string \<Rightarrow> rat \<Rightarrow> rat \<Rightarrow> rat \<Rightarrow> rat \<Rightarrow> layout \<Rightarrow> bool \<times> layout" where
  "tryAddImage E imgUrl format requiredSpace x imgWidth imgHeight s =
     (let s = snd (checkPageBreak E requiredSpace s)
      in case fetchDataUrl E imgUrl of
           None \<Rightarrow> (False, s)
         | Some base64 \<Rightarrow>
             if addImageOk E base64 format
             then (True, advance (imgHeight + 5)
                           (draw (AddImage base64 format x (yPos s) imgWidth imgHeight) s))
             else (False, s))"

text \<open>
  A nullable value inside a template literal, \<^verbatim>\<open>a || 'default'\<close>, \<^verbatim>\<open>n && n > 0\<close>
  and \<^verbatim>\<open>Array.join\<close>.
\<close>

definition str :: "string option \<Rightarrow> string" where
  "str v = (case v of None \<Rightarrow> ''null'' | Some t \<Rightarrow> t)"

definition num :: "pdf_env \<Rightarrow> rat option \<Rightarrow> string" where
  "num E v = (case v of None \<Rightarrow> ''null'' | Some n \<Rightarrow> numToString E n)"

definition orElse :: "string option \<Rightarrow> string \<Rightarrow> string" where
  "orElse v d = (if truthy v then str v else d)"

definition positive :: "rat option \<Rightarrow> bool" where
  "positive v = (case v of None \<Rightarrow> False | Some n \<Rightarrow> n \<noteq> 0 \<and> n > 0)"

fun join :: "string \<Rightarrow> string list \<Rightarrow> string" where
  "join sep [] = []"
| "join sep [x] = x"
| "join sep (x # y # ys) = x @ sep @ join sep (y # ys)"

subsection \<open>The sections of the document, in the order of the source\<close>

definition header :: "pdf_env \<Rightarrow> CmrDocument \<Rightarrow> layout \<Rightarrow> layout" where
  "header E c s =
     (let s = draw (SetFillColor 230 230 250) s;
          s = draw (Rect leftMargin (yPos s) (contentWidth E) 15 ''F'') s;
          s = draw (SetFontSize 20) s;
          s = draw (SetFont ''helvetica'' ''bold'') s;
          s = draw (Text ''CMR'' (pageWidth E / 2) (yPos s + 6) (Some ''center'')) s;
          s = draw (SetFontSize 9) s;
          s = draw (SetFont ''helvetica'' ''normal'') s;
          s = draw (Text ''Convention relative au contrat de transport''
                      (pageWidth E / 2) (yPos s + 11) (Some ''center'')) s;
          s = draw (Text ''international de marchandises par route''
                      (pageWidth E / 2) (yPos s + 14) (Some ''center'')) s;
          s = advance 17 s;
          s = draw (SetFontSize 10) s;
          s = draw (SetFont ''helvetica'' ''bold'') s;
          cmrNumberText =
            (if truthy (cmr_number c) then ''CMR N'' @ degree @ '': '' @ str (cmr_number c)
             else ''CMR ID: '' @ substring E (CmrDocument.id' c) 0 8);
          s = draw (Text cmrNumberText leftMargin (yPos s) None) s;
          transportType = (if is_international c then ''INTERNATIONAL'' else ''NATIONAL'');
          s = (if is_international c then draw (SetTextColor 200 0 0) s
               else draw (SetTextColor 0 100 0) s);
          s = draw (Text transportType (pageWidth E - rightMargin) (yPos s) (Some ''right'')) s;
          s = draw (SetTextColor 0 0 0) s;
          s = advance (lineHeight + 3) s;
          statusText = map (\<lambda>ch. if ch = CHR ''_'' then CHR '' '' else ch)
                         (toUpperCase E (status c));
          s = draw (SetFontSize 9) s;
          s = (if status c = ''completed'' \<or> status c = ''completed_with_reserves''
               then draw (SetTextColor 34 197 94) s
               else draw (SetTextColor 156 163 175) s);
          s = draw (Text (''Status: '' @ statusText) (pageWidth E - rightMargin) (yPos s)
                      (Some ''right'')) s;
          s = draw (SetTextColor 0 0 0) s
      in advance (lineHeight + 5) s)"

definition carrier :: "pdf_env \<Rightarrow> Profile option \<Rightarrow> layout \<Rightarrow> layout" where
  "carrier E pr s =
     (case pr of
        Some p \<Rightarrow>
          (let s = (if truthy (company_name p)
                    then addText E (''Company: '' @ str (company_name p)) 9 True 0 s else s);
               s = (if company_address p \<noteq> []
                    then addWrapped E (''Address: '' @ company_address p) (contentWidth E) s
                    else s);
               regNumbers =
                 (if truthy (company_siren p) then [''SIREN: '' @ str (company_siren p)] else [])
                 @ (if truthy (company_siret p) then [''SIRET: '' @ str (company_siret p)] else [])
                 @ (if truthy (company_naf p) then [''NAF: '' @ str (company_naf p)] else []);
               s = (if length regNumbers > 0 then addText E (join '' | '' regNumbers) 8 False 0 s
                    else s);
               s = (if truthy (phone p) then addText E (''Phone: '' @ str (phone p)) 9 False 0 s
                    else s)
           in if truthy (billing_email p)
              then addText E (''Email: '' @ str (billing_email p)) 9 False 0 s else s)
      | None \<Rightarrow>
          addText E ''Transporter information not available'' 9 False 0
            (draw (SetFont ''helvetica'' ''italic'') s))"

definition additionalParties :: "pdf_env \<Rightarrow> CmrDocument \<Rightarrow> layout \<Rightarrow> layout" where
  "additionalParties E c s =
     (if truthy (principal_name c) \<or> truthy (delivery_carrier_name c)
      then
        (let s = addSubSection E ''Additional Parties'' 10 s;
             s = (if truthy (principal_name c)
                  then
                    (let s = addText E ''Principal / Ordering Party (Donneur d'ordres):''
                               9 True 0 s;
                         s = addText E (''  '' @ str (principal_name c)) 9 False 0 s;
                         s = (if truthy (principal_address c)
                              then addWrapped E (''  '' @ str (principal_address c))
                                     (contentWidth E - 5) s
                              else s)
                     in advance 1 s)
                  else s);
             s = (if truthy (delivery_carrier_name c)
                  then
                    (let s = addText E ''Successive Carrier (Transporteur successif):''
                               9 True 0 s;
                         s = addText E (''  '' @ str (delivery_carrier_name c)) 9 False 0 s
                     in if truthy (delivery_carrier_address c)
                        then addWrapped E (''  '' @ str (delivery_carrier_address c))
                               (contentWidth E - 5) s
                        else s)
                  else s)
         in advance 2 s)
      else s)"

definition parties :: "pdf_env \<Rightarrow> GeneratePdfOptions \<Rightarrow> layout \<Rightarrow> layout" where
  "parties E opts s =
     (let c = cmr opts;
          s = addSection E ''PARTIES'' ''1-3'' s;
          s = addSubSection E (''1. Sender / Shipper (Exp'' @ e_acute @ ''diteur)'') 10 s;
          s = addText E (''Name: '' @ shipper_name c) 9 True 0 s;
          s = (if truthy (shipper_address c)
               then addWrapped E (''Address: '' @ str (shipper_address c)) (contentWidth E) s
               else s);
          s = advance 2 s;
          s = addSubSection E ''2. Carrier / Transporter (Transporteur)'' 10 s;
          s = carrier E (profile opts) s;
          s = advance 2 s;
          s = addSubSection E ''3. Consignee (Destinataire)'' 10 s;
          s = addText E (''Name: '' @ consignee_name c) 9 True 0 s;
          s = (if truthy (consignee_address c)
               then addWrapped E (''Address: '' @ str (consignee_address c)) (contentWidth E) s
               else s);
          s = advance 2 s;
          s = additionalParties E c s
      in advance 3 s)"

text \<open>The block \<^verbatim>\<open>Actual Timestamps\<close>, written once for loading and once for delivery.\<close>

definition actualTimestamps ::
  "pdf_env \<Rightarrow> string option \<Rightarrow> string option \<Rightarrow> layout \<Rightarrow> layout" where
  "actualTimestamps E arrival departure s =
     (if truthy arrival \<or> truthy departure
      then
        (let s = addText E ''Actual Timestamps:'' 9 True 0 s;
             s = (if truthy arrival
                  then addText E (''  Arrived: '' @ toLocaleString E (str arrival)) 8 False 0 s
                  else s)
         in if truthy departure
            then addText E (''  Departed: '' @ toLocaleString E (str departure)) 8 False 0 s
            else s)
      else s)"

definition loadingAndDelivery :: "pdf_env \<Rightarrow> CmrDocument \<Rightarrow> layout \<Rightarrow> layout" where
  "loadingAndDelivery E c s =
     (let s = addSection E ''LOADING & DELIVERY'' ''4, 6-7'' s;
          s = addSubSection E
                ''4. Loading Place and Date (Lieu et date de la prise en charge)'' 10 s;
          s = addText E (''Place: '' @ loading_place c) 9 True 0 s;
          s = addText E (''Planned Date: '' @ formatDate E (loading_date c)) 9 False 0 s;
          s = actualTimestamps E (loading_arrival_at c) (loading_departure_at c) s;
          s = (if truthy (loading_extra_services c)
               then addText E (''Extra Services: '' @ str (loading_extra_services c)) 9 False 0 s
               else s);
          s = advance 2 s;
          s = addSubSection E ''6. Delivery Place (Lieu de livraison)'' 10 s;
          s = addText E (''Place: '' @ delivery_place c) 9 True 0 s;
          s = (if truthy (requested_delivery_at c)
               then addText E (''Requested Delivery: ''
                      @ toLocaleString E (str (requested_delivery_at c))) 9 False 0 s
               else s);
          s = actualTimestamps E (delivery_arrival_at c) (delivery_departure_at c) s;
          s = (if truthy (delivery_extra_services c)
               then addText E (''Extra Services: '' @ str (delivery_extra_services c)) 9 False 0 s
               else s)
      in advance 3 s)"

definition goods :: "pdf_env \<Rightarrow> CmrDocument \<Rightarrow> layout \<Rightarrow> layout" where
  "goods E c s =
     (let s = addSection E ''GOODS INFORMATION'' ''8-14'' s;
          s = addSubSection E
                ''11. Description / Nature of Goods (Nature de la marchandise)'' 10 s;
          s = (if truthy (goods_description c)
               then addWrapped E (str (goods_description c)) (contentWidth E) s
               else addText E ''N/A'' 9 False 0 s);
          s = advance 2 s;
          s = addSubSection E ''Package Details'' 10 s;
          s = addTwoColumns E
                (''9. Packages: ''
                   @ (if truthyNum (packages_count c) then num E (packages_count c) else ''N/A''))
                (''10. Packaging: '' @ orElse (packaging_type c) ''N/A'') 9 s;
          s = addTwoColumns E
                (''13. Gross Weight: ''
                   @ (if truthyNum (weight_kg c) then num E (weight_kg c) @ '' kg'' else ''N/A''))
                (''14. Volume: ''
                   @ (if truthyNum (declared_value c)
                      then num E (declared_value c) @ '' ''
                             @ orElse (declared_value_currency c) ''EUR''
                      else ''N/A'')) 9 s;
          s = advance 1 s;
          s = (if truthy (goods_marks_numbers c)
               then advance 1
                      (addText E (''8. Marks & Numbers: '' @ str (goods_marks_numbers c))
                         9 False 0 s)
               else s)
      in advance 2 s)"

definition dangerousGoods :: "pdf_env \<Rightarrow> CmrDocument \<Rightarrow> layout \<Rightarrow> layout" where
  "dangerousGoods E c s =
     (if is_dangerous_goods c
      then
        (let s = snd (checkPageBreak E 25 s);
             s = draw (SetFillColor 255 237 213) s;
             s = draw (SetDrawColor 255 140 0) s;
             boxHeight = 20;
             s = draw (Rect leftMargin (yPos s) (contentWidth E) boxHeight ''FD'') s;
             s = advance 4 s;
             s = addSubSection E
                   (warning_sign @ '' DANGEROUS GOODS (ADR) - Mati'' @ e_grave
                      @ ''res Dangereuses'') 10 s;
             s = advance (- 1) s;
             s = (if truthy (dangerous_goods_class c)
                  then addText E (''  Class: '' @ str (dangerous_goods_class c)) 9 False 0 s
                  else s);
             s = (if truthy (dangerous_goods_un_number c)
                  then addText E (''  UN Number: '' @ str (dangerous_goods_un_number c))
                         9 False 0 s
                  else s);
             s = (if truthy (dangerous_goods_adr_letter c)
                  then addText E (''  ADR Letter: '' @ str (dangerous_goods_adr_letter c))
                         9 False 0 s
                  else s)
         in advance 3 s)
      else s)"

definition temperatureControl :: "pdf_env \<Rightarrow> CmrDocument \<Rightarrow> layout \<Rightarrow> layout" where
  "temperatureControl E c s =
     (if is_controlled_temperature c
      then
        (let s = snd (checkPageBreak E 15 s);
             s = draw (SetFillColor 219 234 254) s;
             s = draw (SetDrawColor 59 130 246) s;
             boxHeight = 12;
             s = draw (Rect leftMargin (yPos s) (contentWidth E) boxHeight ''FD'') s;
             s = advance 4 s;
             s = addSubSection E
                   (snowflake @ '' TEMPERATURE CONTROLLED - Transport Frigorifique'') 10 s;
             s = advance (- 1) s;
             tempInfo =
               (if temperature_min c \<noteq> None
                then [''Min: '' @ num E (temperature_min c) @ degree @ ''C''] else [])
               @ (if temperature_max c \<noteq> None
                  then [''Max: '' @ num E (temperature_max c) @ degree @ ''C''] else []);
             s = (if length tempInfo > 0
                  then addText E (''  '' @ join '' | '' tempInfo) 9 False 0 s else s)
         in advance 3 s)
      else s)"

definition palletExchange :: "pdf_env \<Rightarrow> CmrDocument \<Rightarrow> layout \<Rightarrow> layout" where
  "palletExchange E c s =
     (if truthyNum (pallets_loaded_at_shipper c) \<or> truthyNum (pallets_returned_to_shipper c)
         \<or> truthyNum (pallets_delivered_to_consignee c)
         \<or> truthyNum (pallets_returned_by_consignee c)
      then
        (let s = advance 1 s;
             s = addText E ''Pallet Exchange:'' 9 True 0 s;
             s = (if truthyNum (pallets_loaded_at_shipper c)
                  then addText E (''  Loaded at shipper: ''
                         @ num E (pallets_loaded_at_shipper c)) 8 False 0 s
                  else s);
             s = (if truthyNum (pallets_returned_to_shipper c)
                  then addText E (''  Returned to shipper: ''
                         @ num E (pallets_returned_to_shipper c)) 8 False 0 s
                  else s);
             s = (if truthyNum (pallets_delivered_to_consignee c)
                  then addText E (''  Delivered to consignee: ''
                         @ num E (pallets_delivered_to_consignee c)) 8 False 0 s
                  else s)
         in if truthyNum (pallets_returned_by_consignee c)
            then addText E (''  Returned by consignee: ''
                   @ num E (pallets_returned_by_consignee c)) 8 False 0 s
            else s)
      else s)"

definition pallets :: "pdf_env \<Rightarrow> CmrDocument \<Rightarrow> layout \<Rightarrow> layout" where
  "pallets E c s =
     (let hasPallets =
            (truthyNum (pallets_80_120 c) \<or> truthyNum (pallets_100_120 c)
             \<or> truthyNum (pallets_europe c) \<or> truthyNum (pallets_others c)
             \<or> truthyNum (pallets_bacs c) \<or> truthyNum (pallets_rolls c))
      in if hasPallets
         then
           (let s = addSection E ''PALLETS & SUPPORTS'' ''15'' s;
                palletLines =
                  (if positive (pallets_80_120 c)
                   then [''80x120: '' @ num E (pallets_80_120 c)] else [])
                  @ (if positive (pallets_100_120 c)
                     then [''100x120: '' @ num E (pallets_100_120 c)] else [])
                  @ (if positive (pallets_europe c)
                     then [''Euro: '' @ num E (pallets_europe c)] else [])
                  @ (if positive (pallets_others c)
                     then [''Others: '' @ num E (pallets_others c)] else [])
                  @ (if positive (pallets_bacs c)
                     then [''Bacs: '' @ num E (pallets_bacs c)] else [])
                  @ (if positive (pallets_rolls c)
                     then [''Rolls: '' @ num E (pallets_rolls c)] else []);
                s = (if length palletLines > 0
                     then addText E (join '' | '' palletLines) 9 False 0 s else s);
                s = (if truthy (pallets_origin c)
                     then addText E (''Origin: '' @ str (pallets_origin c)) 9 False 0 s else s);
                s = palletExchange E c s;
                s = (if truthy (pallets_deposited_at c)
                     then addText E (''Deposited at: '' @ str (pallets_deposited_at c))
                            9 False 0 s
                     else s);
                s = (if truthy (pallets_final_balance c)
                     then addWrapped E (''Final Balance: '' @ str (pallets_final_balance c))
                            (contentWidth E) s
                     else s)
            in advance 3 s)
         else s)"

definition attachedDocuments :: "pdf_env \<Rightarrow> CmrDocument \<Rightarrow> layout \<Rightarrow> layout" where
  "attachedDocuments E c s =
     (if truthy (attached_documents c)
      then
        (let s = addSection E ''ATTACHED DOCUMENTS'' ''5'' s;
             s = addWrapped E (str (attached_documents c)) (contentWidth E) s
         in advance 3 s)
      else s)"

definition instructionsSection :: "pdf_env \<Rightarrow> CmrDocument \<Rightarrow> layout \<Rightarrow> layout" where
  "instructionsSection E c s =
     (if truthy (instructions c) \<or> truthy (customs_instructions c)
      then
        (let s = addSection E ''INSTRUCTIONS'' ''16-17'' s;
             s = (if truthy (instructions c)
                  then
                    (let s = addSubSection E
                               (''16. Sender's Instructions (Instructions de l'exp'' @ e_acute
                                  @ ''diteur)'') 10 s;
                         s = addWrapped E (str (instructions c)) (contentWidth E) s
                     in advance 2 s)
                  else s);
             s = (if truthy (customs_instructions c)
                  then
                    (let s = addSubSection E
                               (''17. Customs Instructions (Instructions douani'' @ e_grave
                                  @ ''res)'') 10 s;
                         s = addWrapped E (str (customs_instructions c)) (contentWidth E) s
                     in advance 2 s)
                  else s)
         in advance 1 s)
      else s)"

definition financial :: "pdf_env \<Rightarrow> CmrDocument \<Rightarrow> layout \<Rightarrow> layout" where
  "financial E c s =
     (let hasFinancial =
            (truthyNum (cash_on_delivery_amount c) \<or> truthyNum (freight_total_amount c)
             \<or> truthy (freight_terms c))
      in if hasFinancial
         then
           (let s = addSection E ''FINANCIAL INFORMATION'' ''20-21'' s;
                s = (if positive (cash_on_delivery_amount c)
                     then
                       (let s = snd (checkPageBreak E 12 s);
                            s = draw (SetFillColor 254 249 195) s;
                            s = draw (SetDrawColor 250 204 21) s;
                            boxHeight = 10;
                            s = draw (Rect leftMargin (yPos s) (contentWidth E) boxHeight
                                        ''FD'') s;
                            s = advance 4 s;
                            s = addSubSection E
                                  ''20. Cash on Delivery (Contre-Remboursement)'' 10 s;
                            s = advance (- 1) s;
                            s = addText E
                                  (''  Amount: '' @ num E (cash_on_delivery_amount c) @ '' ''
                                     @ orElse (cash_on_delivery_currency c) ''EUR'') 10 True 0 s
                        in advance 4 s)
                     else s);
                s = (if truthyNum (freight_total_amount c) \<or> truthy (freight_terms c)
                     then
                       (let s = addSubSection E ''21. Freight Charges (Port et frais)'' 10 s;
                            s = (if truthyNum (freight_total_amount c)
                                 then addText E
                                        (''Amount: '' @ num E (freight_total_amount c) @ '' ''
                                           @ (if freight_currency c \<noteq> []
                                              then freight_currency c else ''EUR''))
                                        9 False 0 s
                                 else s);
                            s = (if truthy (freight_terms c)
                                 then addText E (''Terms: '' @ str (freight_terms c)) 9 False 0 s
                                 else s)
                        in advance 2 s)
                     else s)
            in advance 1 s)
         else s)"

text \<open>
  One pass of the photo loop. A photo without URL is skipped; when embedding throws, the
  \<^verbatim>\<open>catch\<close> writes a placeholder line at the cursor.
\<close>

definition photoItem :: "pdf_env \<Rightarrow> PhotoWithUrl \<Rightarrow> layout \<Rightarrow> layout" where
  "photoItem E photo s =
     (if truthy (PhotoWithUrl.photoUrl photo)
      then
        (let (embedded, s) =
               tryAddImage E (str (PhotoWithUrl.photoUrl photo)) ''JPEG'' 70 leftMargin 90 65 s
         in if embedded then s
            else
              (let s = draw (SetFont ''helvetica'' ''italic'') s;
                   s = draw (SetFontSize 8) s;
                   s = draw (Text ''[Photo not available]'' leftMargin (yPos s) None) s
               in advance lineHeight s))
      else s)"

definition photosSection :: "pdf_env \<Rightarrow> PhotoWithUrl list \<Rightarrow> layout \<Rightarrow> layout" where
  "photosSection E ps s =
     (if length ps > 0
      then
        (let s = addSection E ''PHOTOS'' '''' s;
             s = addText E (numToString E (of_nat (length ps)) @ '' photo(s) attached'')
                   9 False 0 s;
             s = advance 2 s;
             s = fold (photoItem E) ps s
         in advance 3 s)
      else s)"

text \<open>
  One pass of a reserve loop; the loops over the loading and the delivery reserves have
  the same body. The \<^verbatim>\<open>catch\<close> around the photo only logs to the console: the
  state stays the one the \<^verbatim>\<open>try\<close> left.
\<close>

definition reserveItem :: "pdf_env \<Rightarrow> ReserveWithUrl \<Rightarrow> layout \<Rightarrow> layout" where
  "reserveItem E reserve s =
     (let s = snd (checkPageBreak E 35 s);
          s = draw (SetFontSize 9) s;
          s = draw (SetFont ''helvetica'' ''bold'') s;
          s = draw (Text (bullet @ '' '' @ reserve_type reserve) (leftMargin + 3) (yPos s) None) s;
          s = advance lineHeight s;
          s = (if truthy (comment reserve)
               then
                 (let s = draw (SetFont ''helvetica'' ''normal'') s;
                      commentLines =
                        splitTextToSize E (pdf s) (str (comment reserve)) (contentWidth E - 8)
                  in fold (\<lambda>line s.
                             (let s = snd (checkPageBreak E lineHeight s);
                                  s = draw (Text line (leftMargin + 6) (yPos s) None) s
                              in advance lineHeight s))
                       commentLines s)
               else s);
          s = (if truthy (ReserveWithUrl.photoUrl reserve)
               then snd (tryAddImage E (str (ReserveWithUrl.photoUrl reserve)) ''JPEG'' 50
                           (leftMargin + 6) 60 45 s)
               else s)
      in advance 2 s)"

definition reservesSection :: "pdf_env \<Rightarrow> ReserveWithUrl list \<Rightarrow> layout \<Rightarrow> layout" where
  "reservesSection E rs s =
     (if length rs > 0
      then
        (let s = addSection E ''RESERVES & OBSERVATIONS'' ''23-24'' s;
             loadingReserves = filter (\<lambda>r. side r = ''loading'') rs;
             deliveryReserves = filter (\<lambda>r. side r = ''delivery'') rs;
             s = (if length loadingReserves > 0
                  then
                    (let s = addSubSection E
                               (''23. Reserves at Loading (R'' @ e_acute
                                  @ ''serves au chargement)'') 10 s;
                         s = advance 1 s;
                         s = fold (reserveItem E) loadingReserves s
                     in advance 2 s)
                  else s);
             s = (if length deliveryReserves > 0
                  then
                    (let s = addSubSection E
                               (''24. Reserves at Delivery (R'' @ e_acute @ ''serves ''
                                  @ a_grave @ '' la livraison)'') 10 s;
                         s = advance 1 s
                     in fold (reserveItem E) deliveryReserves s)
                  else s)
         in advance 3 s)
      else s)"

text \<open>
  A signature block up to and including its image; the shipper and the consignee blocks
  differ in the title only (and in what follows the block, see \<open>signatures\<close>).
\<close>

definition signatureBlock :: "pdf_env \<Rightarrow> string \<Rightarrow> SignatureWithUrl \<Rightarrow> layout \<Rightarrow> layout" where
  "signatureBlock E title sg s =
     (let s = snd (checkPageBreak E 55 s);
          s = addSubSection E title 10 s;
          s = advance 1 s;
          s = (if truthy (signer_name sg)
               then addText E (''Name: '' @ str (signer_name sg)) 9 True 0 s else s);
          s = (if truthy (signer_role sg)
               then addText E (''Role: '' @ str (signer_role sg)) 9 False 0 s else s);
          s = (if truthy (signer_email sg)
               then addText E (''Email: '' @ str (signer_email sg)) 9 False 0 s else s);
          s = addText E (''Signed: '' @ formatDateTime E (CmrSignature.created_at sg))
                9 False 0 s;
          s = advance 2 s
      in if truthy (signatureUrl sg)
         then
           (let (embedded, s) =
                  tryAddImage E (str (signatureUrl sg)) ''PNG'' 35 leftMargin 80 30 s
            in if embedded then s
               else
                 (let s = draw (SetFont ''helvetica'' ''italic'') s;
                      s = draw (SetFontSize 8) s;
                      s = draw (Text ''[Signature image not available]'' leftMargin (yPos s)
                                  None) s
                  in advance lineHeight s))
         else s)"

definition signatures :: "pdf_env \<Rightarrow> GeneratePdfOptions \<Rightarrow> layout \<Rightarrow> layout" where
  "signatures E opts s =
     (let s = addSection E ''SIGNATURES'' '''' s;
          s = (case shipperSignature opts of
                 Some sg \<Rightarrow>
                   advance 5
                     (signatureBlock E
                        (''Shipper / Sender Signature (Signature de l'exp'' @ e_acute
                           @ ''diteur)'') sg s)
               | None \<Rightarrow> s)
      in case consigneeSignature opts of
           Some sg \<Rightarrow>
             signatureBlock E ''Consignee / Receiver Signature (Signature du destinataire)''
               sg s
         | None \<Rightarrow> s)"

text \<open>Everything \<open>generateCmrPdf\<close> does before the footer loop.\<close>

definition content :: "pdf_env \<Rightarrow> GeneratePdfOptions \<Rightarrow> layout" where
  "content E opts =
     (let s = \<lparr>pdf = new_jsPDF, yPos = 15, checks = []\<rparr>;
          s = header E (cmr opts) s;
          s = parties E opts s;
          s = loadingAndDelivery E (cmr opts) s;
          s = goods E (cmr opts) s;
          s = dangerousGoods E (cmr opts) s;
          s = temperatureControl E (cmr opts) s;
          s = pallets E (cmr opts) s;
          s = attachedDocuments E (cmr opts) s;
          s = instructionsSection E (cmr opts) s;
          s = financial E (cmr opts) s;
          s = photosSection E (photos opts) s;
          s = reservesSection E (reserves opts) s
      in signatures E opts s)"

text \<open>
  The footer loop. \<^verbatim>\<open>new Date()\<close> is read once for each page: \<open>clock i\<close> is the
  time read while page \<open>i\<close> is stamped.
\<close>

definition footerText :: "pdf_env \<Rightarrow> (nat \<Rightarrow> string) \<Rightarrow> nat \<Rightarrow> nat \<Rightarrow> string" where
  "footerText E clock totalPages i =
     ''Generated on '' @ formatDateTime E (clock i) @ '' - Page '' @ numToString E (of_nat i)
       @ '' of '' @ numToString E (of_nat totalPages)"

definition stampPage :: "pdf_env \<Rightarrow> (nat \<Rightarrow> string) \<Rightarrow> nat \<Rightarrow> nat \<Rightarrow> jsPDF \<Rightarrow> jsPDF" where
  "stampPage E clock totalPages i d =
     (let d = setPage i d;
          footerY = pageHeight E - 10;
          d = emit (SetFontSize 7) d;
          d = emit (SetFont ''helvetica'' ''italic'') d;
          d = emit (SetTextColor 100 100 100) d;
          d = emit (Text
                ''This digital CMR document is a legally valid transport contract under the CMR Convention''
                (pageWidth E / 2) (footerY - 3) (Some ''center'')) d;
          d = emit (SetFontSize 8) d
      in emit (Text (footerText E clock totalPages i) (pageWidth E / 2) footerY
                 (Some ''center'')) d)"

definition footer :: "pdf_env \<Rightarrow> (nat \<Rightarrow> string) \<Rightarrow> jsPDF \<Rightarrow> jsPDF" where
  "footer E clock d =
     (let totalPages = length (pages d)
      in fold (stampPage E clock totalPages) [1 ..< totalPages + 1] d)"

definition generateCmrPdf :: "pdf_env \<Rightarrow> (nat \<Rightarrow> string) \<Rightarrow> GeneratePdfOptions \<Rightarrow> jsPDF" where
  "generateCmrPdf E clock opts = footer E clock (pdf (content E opts))"

section \<open>Observing a run\<close>

text \<open>The store calls that write, and the calls issued between two worlds.\<close>

fun is_write :: "store_call \<Rightarrow> bool" where
  "is_write (InsertEvent ev) = True"
| "is_write (UpdateStatus cmrId s) = True"
| "is_write (SelectSignatures cmrId p) = False"
| "is_write (SelectReserves cmrId) = False"
| "is_write (StorageUpload b path) = True"
| "is_write (StorageRemove b paths) = True"
| "is_write (InsertPhoto cmrId userId path) = True"

definition new_calls :: "world \<Rightarrow> world \<Rightarrow> store_call list" where
  "new_calls w w' = drop (length (calls w)) (calls w')"

definition writes :: "world \<Rightarrow> world \<Rightarrow> store_call list" where
  "writes w w' = filter is_write (new_calls w w')"

text \<open>The order of writes the specification gives: the Event insert, then the status update.\<close>

fun event_then_status :: "store_call list \<Rightarrow> bool" where
  "event_then_status [InsertEvent ev, UpdateStatus cmrId s] = True"
| "event_then_status cs = False"

text \<open>The status of a document as a reader of the table sees it.\<close>

definition doc_status :: "world \<Rightarrow> string \<Rightarrow> string option" where
  "doc_status w cmrId =
     map_option status (find (\<lambda>d. CmrDocument.id' d = cmrId) (cmr_documents w))"

text \<open>
  The order of the specification:
  \<^verbatim>\<open>ready_to_load < loading < in_transit < ready_to_deliver < {completed, completed_with_reserves}\<close>,
  with \<^verbatim>\<open>draft\<close> (and any other string) below all of them.
\<close>

definition status_rank :: "string \<Rightarrow> nat" where
  "status_rank s =
     (if s = ''ready_to_load'' then 1
      else if s = ''loading'' then 2
      else if s = ''in_transit'' then 3
      else if s = ''ready_to_deliver'' then 4
      else if s = ''completed'' \<or> s = ''completed_with_reserves'' then 5
      else 0)"

definition doc_rank :: "world \<Rightarrow> string \<Rightarrow> nat" where
  "doc_rank w cmrId = (case doc_status w cmrId of None \<Rightarrow> 0 | Some s \<Rightarrow> status_rank s)"

text \<open>
  Which action the user interface offers at a status: the three buttons of
  \<^verbatim>\<open>StatusActions\<close> (status-actions.tsx), which renders nothing once the document is
  completed, and the consignee signature section of the document page, shown at
  \<^verbatim>\<open>ready_to_deliver\<close>, whose save handler invokes \<^verbatim>\<open>delivery_end\<close>.
\<close>

definition offered :: "string \<Rightarrow> string \<Rightarrow> bool" where
  "offered currentStatus type =
     (if currentStatus = ''completed'' \<or> currentStatus = ''completed_with_reserves'' then False
      else (currentStatus = ''ready_to_load'' \<and> type = ''loading_start'')
         \<or> (currentStatus = ''loading'' \<and> type = ''loading_end'')
         \<or> (currentStatus = ''in_transit'' \<and> type = ''delivery_start'')
         \<or> (currentStatus = ''ready_to_deliver'' \<and> type = ''delivery_end''))"

text \<open>
  A session at the user interface: the worlds passed through when the actions are
  requested in turn and each is invoked only if it is offered at the current status.
\<close>

fun ui_run :: "faults \<Rightarrow> string \<Rightarrow> string \<Rightarrow> string list \<Rightarrow> world \<Rightarrow> world list" where
  "ui_run F cmrId userId [] w = [w]"
| "ui_run F cmrId userId (a # as) w =
     w # ui_run F cmrId userId as
           (if (case doc_status w cmrId of None \<Rightarrow> False | Some s \<Rightarrow> offered s a)
            then snd (performCmrAction F cmrId userId a w) else w)"

text \<open>The status each of the three event-first actions writes.\<close>

definition target_status :: "string \<Rightarrow> string" where
  "target_status type =
     (if type = ''loading_start'' then ''loading''
      else if type = ''loading_end'' then ''in_transit''
      else ''ready_to_deliver'')"

text \<open>A document and a world to run the actions on.\<close>

definition doc0 :: CmrDocument where
  "doc0 =
     \<lparr>archived = False, archived_at = None, attached_documents = None,
      cash_on_delivery_amount = None, cash_on_delivery_currency = None, cmr_number = None,
      consignee_address = None, consignee_name = ''B'', CmrDocument.created_at = ''2025-01-01'',
      customs_instructions = None, dangerous_goods_adr_letter = None,
      dangerous_goods_class = None, dangerous_goods_un_number = None, declared_value = None,
      declared_value_currency = None, delivery_arrival_at = None,
      delivery_carrier_address = None, delivery_carrier_name = None,
      delivery_departure_at = None, delivery_extra_services = None, delivery_place = ''Q'',
      freight_currency = ''EUR'', freight_terms = None, freight_total_amount = None,
      goods_description = None, goods_marks_numbers = None, CmrDocument.id' = ''c1'',
      instructions = None, is_controlled_temperature = False, is_dangerous_goods = False,
      is_international = False, loading_arrival_at = None, loading_date = ''2025-01-02'',
      loading_departure_at = None, loading_extra_services = None, loading_place = ''P'',
      packages_count = None, packaging_type = None, pallets_100_120 = None,
      pallets_80_120 = None, pallets_bacs = None, pallets_delivered_to_consignee = None,
      pallets_deposited_at = None, pallets_europe = None, pallets_final_balance = None,
      pallets_loaded_at_shipper = None, pallets_origin = None, pallets_others = None,
      pallets_returned_by_consignee = None, pallets_returned_to_shipper = None,
      pallets_rolls = None, principal_address = None, principal_name = None,
      requested_delivery_at = None, shipper_address = None, shipper_name = ''A'',
      status = ''ready_to_load'', temperature_max = None, temperature_min = None,
      updated_at = ''2025-01-01'', CmrDocument.user_id = ''u1'', vehicle_id = ''v1'',
      vehicle_plate = None, weight_kg = None\<rparr>"

definition world0 :: "string \<Rightarrow> world" where
  "world0 s =
     \<lparr>cmr_documents = [doc0\<lparr>status := s\<rparr>], cmr_events = [], cmr_signatures = [],
      cmr_reserves = [], cmr_photos = [], photo_bucket = Map.empty, calls = []\<rparr>"

text \<open>An upload environment, a file and a store whose photo insert fails.\<close>

definition upload_env0 :: upload_env where
  "upload_env0 =
     \<lparr>dateNow = ''1700000000000'', randomString = ''k3x9q'',
      getPublicUrl = (\<lambda>b p. ''https://store/'' @ b @ ''/'' @ p),
      newPhotoId = ''p1'', newCreatedAt = ''2025-01-03''\<rparr>"

definition file0 :: File where
  "file0 = \<lparr>name = ''dock.v2.jpg'', bytes = ''JFIF''\<rparr>"

fun insert_photo_fails :: faults where
  "insert_photo_fails h (InsertPhoto cmrId userId path) = Some ''connection lost''"
| "insert_photo_fails h c = None"

text \<open>A store that is lost after the upload: the insert and the removal both fail.\<close>

fun insert_and_remove_fail :: faults where
  "insert_and_remove_fail h (InsertPhoto cmrId userId path) = Some ''connection lost''"
| "insert_and_remove_fail h (StorageRemove b paths) = Some ''connection lost''"
| "insert_and_remove_fail h c = None"

text \<open>
  An environment for the generator: an A4 page, no wrapping, decimal numbers, dates left
  as they are, upper case and substring as on ASCII strings, and one reachable image
  URL; every other URL fails.
\<close>

function showNat :: "nat \<Rightarrow> string" where
  "showNat n =
     (if n < 10 then [''0123456789'' ! n]
      else showNat (n div 10) @ [''0123456789'' ! (n mod 10)])"
  by pat_completeness auto
termination
  by (relation "measure (\<lambda>n. n)") auto

definition upperAscii :: "char \<Rightarrow> char" where
  "upperAscii ch =
     (case map_of (zip ''abcdefghijklmnopqrstuvwxyz'' ''ABCDEFGHIJKLMNOPQRSTUVWXYZ'') ch of
        Some u \<Rightarrow> u
      | None \<Rightarrow> ch)"

definition env0 :: pdf_env where
  "env0 =
     \<lparr>pageWidth = 210, pageHeight = 297,
      splitTextToSize = (\<lambda>d t w. [t]),
      numToString = (\<lambda>r. showNat (nat \<lfloor>r\<rfloor>)),
      formatDate = (\<lambda>t. t), formatDateTime = (\<lambda>t. t), toLocaleString = (\<lambda>t. t),
      toUpperCase = map upperAscii,
      substring = (\<lambda>t i j. take (j - i) (drop i t)),
      fetchDataUrl =
        (\<lambda>u. if u = ''https://img/ok'' then Some ''data:image/png;base64,iVBOR'' else None),
      addImageOk = (\<lambda>d f. True)\<rparr>"

text \<open>
  An aggregate whose three image URLs (photo, reserve photo, shipper signature) are all
  unreachable in \<open>env0\<close>, and two clocks.
\<close>

definition sig0 :: SignatureWithUrl where
  "sig0 =
     \<lparr>CmrSignature.cmr_id = ''c1'', CmrSignature.created_at = ''2025-01-02T10:00'',
      CmrSignature.id' = ''s1'', party_type = ''shipper'', signer_email = None,
      signer_name = Some ''Ann'', signer_role = None,
      CmrSignature.storage_path = ''c1-shipper-1.png'', CmrSignature.user_id = ''u1'',
      signatureUrl = Some ''https://img/gone''\<rparr>"

definition reserve0 :: ReserveWithUrl where
  "reserve0 =
     \<lparr>CmrReserve.cmr_id = ''c1'', comment = Some ''two boxes wet'',
      CmrReserve.created_at = ''2025-01-02T09:00'', CmrReserve.id' = ''r1'',
      photo_storage_path = Some ''u1/c1/r1.jpg'', reserve_type = ''Damaged packaging'',
      side = ''loading'', CmrReserve.user_id = ''u1'',
      ReserveWithUrl.photoUrl = Some ''https://img/gone''\<rparr>"

definition photo0 :: PhotoWithUrl where
  "photo0 =
     \<lparr>CmrPhoto.cmr_id = ''c1'', CmrPhoto.created_at = ''2025-01-02T09:30'',
      CmrPhoto.id' = ''p1'', CmrPhoto.storage_path = ''u1/c1/p1.jpg'',
      CmrPhoto.user_id = ''u1'', PhotoWithUrl.photoUrl = Some ''https://img/gone''\<rparr>"

definition opts0 :: GeneratePdfOptions where
  "opts0 =
     \<lparr>cmr = doc0, profile = None, shipperSignature = Some sig0, consigneeSignature = None,
      reserves = [reserve0], photos = [photo0]\<rparr>"

definition clock0 :: "nat \<Rightarrow> string" where
  "clock0 i = ''2025-01-05T12:00''"

definition clock1 :: "nat \<Rightarrow> string" where
  "clock1 i = ''2025-02-09T08:30''"

text \<open>The strings written on a page, in the order they are written.\<close>

fun texts :: "pdf_op list \<Rightarrow> string list" where
  "texts [] = []"
| "texts (Text t x y a # cs) = t # texts cs"
| "texts (c # cs) = texts cs"

text \<open>
  A call lies above the bottom margin when what it draws ends at or above the page
  height minus 20: a line of text needs \<open>lineHeight\<close>, a box or an image its height.
\<close>

fun fitsPage :: "pdf_env \<Rightarrow> pdf_op \<Rightarrow> bool" where
  "fitsPage E (Text t x y a) = (y + lineHeight \<le> pageHeight E - 20)"
| "fitsPage E (Rect x y w h st) = (y + h \<le> pageHeight E - 20)"
| "fitsPage E (Line x1 y1 x2 y2) = (y1 \<le> pageHeight E - 20 \<and> y2 \<le> pageHeight E - 20)"
| "fitsPage E (AddImage d f x y w h) = (y + h \<le> pageHeight E - 20)"
| "fitsPage E c = True"

definition aboveMargin :: "pdf_env \<Rightarrow> layout \<Rightarrow> bool" where
  "aboveMargin E s = list_all (list_all (fitsPage E)) (pages (pdf s))"

text \<open>The six calls \<open>stampPage\<close> makes on page \<open>i\<close>.\<close>

definition footerOps :: "pdf_env \<Rightarrow> (nat \<Rightarrow> string) \<Rightarrow> nat \<Rightarrow> nat \<Rightarrow> pdf_op list" where
  "footerOps E clock n i =
     [SetFontSize 7, SetFont ''helvetica'' ''italic'', SetTextColor 100 100 100,
      Text
        ''This digital CMR document is a legally valid transport contract under the CMR Convention''
        (pageWidth E / 2) (pageHeight E - 10 - 3) (Some ''center''),
      SetFontSize 8,
      Text (footerText E clock n i) (pageWidth E / 2) (pageHeight E - 10) (Some ''center'')]"

section \<open>Theorems\<close>

subsection \<open>Auxiliary facts about the store and the actions\<close>

lemma dispatch:
  "performCmrAction F cmrId userId ''loading_start'' w = startLoading F cmrId userId w"
  "performCmrAction F cmrId userId ''loading_end'' w = endLoading F cmrId userId w"
  "performCmrAction F cmrId userId ''delivery_start'' w = startDelivery F cmrId userId w"
  "performCmrAction F cmrId userId ''delivery_end'' w = completeDelivery F cmrId userId w"
  by (simp_all add: performCmrAction_def)

lemma limit1_empty: "(min (length xs) (Suc 0) = 0) = (xs = [])"
  by (cases xs) auto

lemma reserves_exist_iff:
  "(filter (\<lambda>r. CmrReserve.cmr_id r = cmrId) rs = [])
     = (\<not> (\<exists>r \<in> set rs. CmrReserve.cmr_id r = cmrId))"
  by (auto simp: filter_empty_conv)

lemma find_set_status:
  "map_option status (find (\<lambda>d. CmrDocument.id' d = cmrId)
      (map (\<lambda>d. if CmrDocument.id' d = cmrId then d\<lparr>status := s\<rparr> else d) ds))
   = map_option (\<lambda>_. s) (find (\<lambda>d. CmrDocument.id' d = cmrId) ds)"
  by (induction ds) auto

lemma doc_status_update:
  "doc_status (snd (update_status F cmrId s w)) cmrId =
     (case F (calls w) (UpdateStatus cmrId s) of
        Some e \<Rightarrow> doc_status w cmrId
      | None \<Rightarrow> map_option (\<lambda>_. s) (doc_status w cmrId))"
  by (simp add: update_status_def doc_status_def issue_def find_set_status
        option.map_comp comp_def split: option.splits)

lemma doc_status_insert:
  "doc_status (snd (insert_cmr_event F ev w)) cmrId = doc_status w cmrId"
  by (simp add: insert_cmr_event_def doc_status_def issue_def split: option.splits)

lemma doc_status_select_signatures:
  "doc_status (snd (select_signatures F cmrId p w)) c = doc_status w c"
  by (simp add: select_signatures_def doc_status_def issue_def split: option.splits)

lemma doc_status_select_reserves:
  "doc_status (snd (select_reserves F cmrId w)) c = doc_status w c"
  by (simp add: select_reserves_def doc_status_def issue_def split: option.splits)

lemmas doc_status_simps =
  doc_status_update doc_status_insert doc_status_select_signatures doc_status_select_reserves

text \<open>Whatever fails, an action leaves the status as it was or sets its own target.\<close>

lemma startLoading_status:
  "doc_status (snd (startLoading F cmrId userId w)) cmrId
     \<in> {doc_status w cmrId, map_option (\<lambda>_. ''loading'') (doc_status w cmrId)}"
  unfolding startLoading_def
  by (auto simp: doc_status_simps split: prod.splits option.splits
        dest!: arg_cong[where f = "\<lambda>p. doc_status (snd p) cmrId"])

lemma endLoading_status:
  "doc_status (snd (endLoading F cmrId userId w)) cmrId
     \<in> {doc_status w cmrId, map_option (\<lambda>_. ''in_transit'') (doc_status w cmrId)}"
  unfolding endLoading_def
  by (auto simp: doc_status_simps split: prod.splits option.splits if_splits
        dest!: arg_cong[where f = "\<lambda>p. doc_status (snd p) cmrId"])

lemma startDelivery_status:
  "doc_status (snd (startDelivery F cmrId userId w)) cmrId
     \<in> {doc_status w cmrId, map_option (\<lambda>_. ''ready_to_deliver'') (doc_status w cmrId)}"
  unfolding startDelivery_def
  by (auto simp: doc_status_simps split: prod.splits option.splits
        dest!: arg_cong[where f = "\<lambda>p. doc_status (snd p) cmrId"])

lemma completeDelivery_status:
  "doc_status (snd (completeDelivery F cmrId userId w)) cmrId
     \<in> {doc_status w cmrId, map_option (\<lambda>_. ''completed'') (doc_status w cmrId),
        map_option (\<lambda>_. ''completed_with_reserves'') (doc_status w cmrId)}"
  unfolding completeDelivery_def Let_def
  by (auto simp: doc_status_simps split: prod.splits option.splits if_splits
        dest!: arg_cong[where f = "\<lambda>p. doc_status (snd p) cmrId"])

lemma rank_values:
  "status_rank ''ready_to_load'' = 1" "status_rank ''loading'' = 2"
  "status_rank ''in_transit'' = 3" "status_rank ''ready_to_deliver'' = 4"
  "status_rank ''completed'' = 5" "status_rank ''completed_with_reserves'' = 5"
  by (simp_all add: status_rank_def)

lemma offered_cases:
  assumes "offered s a"
  shows "(s = ''ready_to_load'' \<and> a = ''loading_start'')
       \<or> (s = ''loading'' \<and> a = ''loading_end'')
       \<or> (s = ''in_transit'' \<and> a = ''delivery_start'')
       \<or> (s = ''ready_to_deliver'' \<and> a = ''delivery_end'')"
proof (cases "s = ''completed'' \<or> s = ''completed_with_reserves''")
  case True
  with assms show ?thesis by (simp only: offered_def if_True)
next
  case False
  with assms show ?thesis by (simp only: offered_def if_False)
qed

text \<open>
  C9. For each of the seven status values, exactly one of \<open>isInProgress\<close> and
  \<open>isCompleted\<close> holds: the two lists are disjoint and together they are the whole
  enumeration.
\<close>

theorem status_partition:
  "(\<forall>s \<in> set CmrStatus. isInProgress s \<noteq> isCompleted s)
   \<and> set IN_PROGRESS_STATUSES \<inter> set COMPLETED_STATUSES = {}
   \<and> set IN_PROGRESS_STATUSES \<union> set COMPLETED_STATUSES = set CmrStatus"
  by (auto simp: CmrStatus_def isInProgress_def isCompleted_def
        IN_PROGRESS_STATUSES_def COMPLETED_STATUSES_def)

theorem status_partition_witness:
  "''draft'' \<in> set CmrStatus \<and> isInProgress ''draft'' \<and> \<not> isCompleted ''draft''
   \<and> ''completed'' \<in> set CmrStatus \<and> \<not> isInProgress ''completed'' \<and> isCompleted ''completed''"
proof -
  have d: "''draft'' \<in> set CmrStatus" and c: "''completed'' \<in> set CmrStatus"
    by (simp_all add: CmrStatus_def)
  from status_partition d have "isInProgress ''draft'' \<noteq> isCompleted ''draft''" by blast
  moreover from status_partition c
  have "isInProgress ''completed'' \<noteq> isCompleted ''completed''" by blast
  moreover have "isInProgress ''draft''" by (simp add: isInProgress_def IN_PROGRESS_STATUSES_def)
  moreover have "isCompleted ''completed''" by (simp add: isCompleted_def COMPLETED_STATUSES_def)
  ultimately show ?thesis using d c by blast
qed


subsection \<open>The lifecycle engine\<close>

text \<open>
  C1. On a document with no shipper signature row, \<open>loading_end\<close> fails and mutates
  nothing: the only store call issued is the signature query, no Event is inserted and
  no status is written. The error is the domain error
  \<open>Cannot end loading without shipper signature\<close>; only when the signature query
  itself fails is it the error of that query, which the action throws first.
\<close>

theorem endLoading_without_shipper_signature:
  assumes "filter (\<lambda>r. CmrSignature.cmr_id r = cmrId \<and> party_type r = ''shipper'')
             (cmr_signatures w) = []"
  shows "performCmrAction F cmrId userId ''loading_end'' w =
     (Inl (case F (calls w) (SelectSignatures cmrId ''shipper'') of
             Some e \<Rightarrow> StoreError e
           | None \<Rightarrow> Error ''Cannot end loading without shipper signature''),
      w\<lparr>calls := calls w @ [SelectSignatures cmrId ''shipper'']\<rparr>)"
  using assms
  by (simp add: dispatch endLoading_def select_signatures_def issue_def split: option.splits)

theorem endLoading_without_shipper_signature_witness:
  "performCmrAction no_faults ''c1'' ''u1'' ''loading_end'' (world0 ''loading'') =
     (Inl (Error ''Cannot end loading without shipper signature''),
      (world0 ''loading'')\<lparr>calls := [SelectSignatures ''c1'' ''shipper'']\<rparr>)
   \<and> cmr_events (snd (performCmrAction no_faults ''c1'' ''u1'' ''loading_end''
         (world0 ''loading''))) = []
   \<and> doc_status (snd (performCmrAction no_faults ''c1'' ''u1'' ''loading_end''
         (world0 ''loading''))) ''c1'' = Some ''loading''"
proof -
  have h: "filter (\<lambda>r. CmrSignature.cmr_id r = ''c1'' \<and> party_type r = ''shipper'')
             (cmr_signatures (world0 ''loading'')) = []"
    by (simp add: world0_def)
  show ?thesis
    unfolding endLoading_without_shipper_signature [OF h, of no_faults "''u1''"]
    by (simp add: no_faults_def world0_def doc_status_def doc0_def)
qed

text \<open>
  C2. When the store answers every call, \<open>delivery_end\<close> queries the reserves of the
  document (of either side), writes \<open>completed_with_reserves\<close> to the document if there
  is one and \<open>completed\<close> if there is none, and inserts exactly one Event, of type
  \<open>delivery_end\<close>, whose metadata is the final status and whether reserves exist.
\<close>

theorem completeDelivery_final_status:
  assumes "\<And>h c. F h c = None"
  shows "performCmrAction F cmrId userId ''delivery_end'' w =
     (let hasReserves = (\<exists>r \<in> set (cmr_reserves w). CmrReserve.cmr_id r = cmrId);
          finalStatus = (if hasReserves then ''completed_with_reserves'' else ''completed'');
          ev = \<lparr>CmrEvent.cmr_id = cmrId, CmrEvent.user_id = userId, type' = ''delivery_end'',
                 metadata = JObject [(''status'', JString finalStatus),
                                     (''has_reserves'', JBoolean hasReserves)]\<rparr>
      in (Inr (),
          w\<lparr>cmr_documents :=
               map (\<lambda>d. if CmrDocument.id' d = cmrId then d\<lparr>status := finalStatus\<rparr> else d)
                 (cmr_documents w),
            cmr_events := cmr_events w @ [ev],
            calls := calls w @ [SelectReserves cmrId, UpdateStatus cmrId finalStatus,
                                InsertEvent ev]\<rparr>))"
  by (simp add: dispatch completeDelivery_def select_reserves_def update_status_def
        insert_cmr_event_def issue_def assms Let_def reserves_exist_iff limit1_empty)

theorem completeDelivery_final_status_witness:
  "fst (performCmrAction no_faults ''c1'' ''u1'' ''delivery_end'' (world0 ''ready_to_deliver''))
     = Inr ()
   \<and> doc_status (snd (performCmrAction no_faults ''c1'' ''u1'' ''delivery_end''
         (world0 ''ready_to_deliver''))) ''c1'' = Some ''completed''
   \<and> cmr_events (snd (performCmrAction no_faults ''c1'' ''u1'' ''delivery_end''
         (world0 ''ready_to_deliver''))) =
       [\<lparr>CmrEvent.cmr_id = ''c1'', CmrEvent.user_id = ''u1'', type' = ''delivery_end'',
         metadata = JObject [(''status'', JString ''completed''),
                             (''has_reserves'', JBoolean False)]\<rparr>]"
proof -
  have h: "\<And>h c. no_faults h c = None"
    by (simp add: no_faults_def)
  show ?thesis
    unfolding completeDelivery_final_status [of no_faults, OF h]
    by (simp add: world0_def doc_status_def doc0_def Let_def)
qed

text \<open>
  C8. An action tag outside the four known ones makes \<open>performCmrAction\<close> throw at
  once: the world, and with it the sequence of store calls, is unchanged.
\<close>

theorem unknown_action_fails_fast:
  assumes "type \<notin> {''loading_start'', ''loading_end'', ''delivery_start'', ''delivery_end''}"
  shows "performCmrAction F cmrId userId type w =
           (Inl (Error (''Unknown CMR action type: '' @ type)), w)"
  using assms by (simp add: performCmrAction_def)

theorem unknown_action_fails_fast_witness:
  "performCmrAction no_faults ''c1'' ''u1'' ''archive'' (world0 ''loading'') =
     (Inl (Error ''Unknown CMR action type: archive''), world0 ''loading'')"
proof -
  have h: "''archive'' \<notin> {''loading_start'', ''loading_end'', ''delivery_start'', ''delivery_end''}"
    by simp
  show ?thesis
    unfolding unknown_action_fails_fast [OF h] by simp
qed


subsection \<open>Monotonicity of the status\<close>

lemma startLoading_rank:
  assumes "doc_status w cmrId = Some ''ready_to_load''"
  shows "doc_rank w cmrId \<le> doc_rank (snd (startLoading F cmrId userId w)) cmrId"
proof -
  have "doc_status (snd (startLoading F cmrId userId w)) cmrId
          \<in> {Some ''ready_to_load'', Some ''loading''}"
    using startLoading_status [of F cmrId userId w] by (simp add: assms(1))
  then show ?thesis
    unfolding doc_rank_def assms(1) by (auto simp: rank_values)
qed

lemma endLoading_rank:
  assumes "doc_status w cmrId = Some ''loading''"
  shows "doc_rank w cmrId \<le> doc_rank (snd (endLoading F cmrId userId w)) cmrId"
proof -
  have "doc_status (snd (endLoading F cmrId userId w)) cmrId
          \<in> {Some ''loading'', Some ''in_transit''}"
    using endLoading_status [of F cmrId userId w] by (simp add: assms(1))
  then show ?thesis
    unfolding doc_rank_def assms(1) by (auto simp: rank_values)
qed

lemma startDelivery_rank:
  assumes "doc_status w cmrId = Some ''in_transit''"
  shows "doc_rank w cmrId \<le> doc_rank (snd (startDelivery F cmrId userId w)) cmrId"
proof -
  have "doc_status (snd (startDelivery F cmrId userId w)) cmrId
          \<in> {Some ''in_transit'', Some ''ready_to_deliver''}"
    using startDelivery_status [of F cmrId userId w] by (simp add: assms(1))
  then show ?thesis
    unfolding doc_rank_def assms(1) by (auto simp: rank_values)
qed

lemma completeDelivery_rank:
  assumes "doc_status w cmrId = Some ''ready_to_deliver''"
  shows "doc_rank w cmrId \<le> doc_rank (snd (completeDelivery F cmrId userId w)) cmrId"
proof -
  have "doc_status (snd (completeDelivery F cmrId userId w)) cmrId
          \<in> {Some ''ready_to_deliver'', Some ''completed'', Some ''completed_with_reserves''}"
    using completeDelivery_status [of F cmrId userId w] by (simp add: assms(1))
  then show ?thesis
    unfolding doc_rank_def assms(1) by (auto simp: rank_values)
qed

lemma offered_step:
  assumes "doc_status w cmrId = Some s" "offered s a"
  shows "doc_rank w cmrId \<le> doc_rank (snd (performCmrAction F cmrId userId a w)) cmrId"
  using offered_cases [OF assms(2)]
proof (elim disjE conjE)
  assume "s = ''ready_to_load''" "a = ''loading_start''"
  with assms(1) show ?thesis by (simp only: dispatch startLoading_rank)
next
  assume "s = ''loading''" "a = ''loading_end''"
  with assms(1) show ?thesis by (simp only: dispatch endLoading_rank)
next
  assume "s = ''in_transit''" "a = ''delivery_start''"
  with assms(1) show ?thesis by (simp only: dispatch startDelivery_rank)
next
  assume "s = ''ready_to_deliver''" "a = ''delivery_end''"
  with assms(1) show ?thesis by (simp only: dispatch completeDelivery_rank)
qed

lemma ui_run_hd: "\<exists>ws. ui_run F cmrId userId as w = w # ws"
  by (cases as) auto

text \<open>
  C3, as the code has it. No action looks at the status the document holds: each writes
  its own target status. The statuses a document takes are non-decreasing in the order
  of the specification when every action is invoked at the status at which the user
  interface offers it (\<open>loading_start\<close> at \<open>ready_to_load\<close>, \<open>loading_end\<close> at
  \<open>loading\<close>, \<open>delivery_start\<close> at \<open>in_transit\<close>, \<open>delivery_end\<close> at
  \<open>ready_to_deliver\<close>, none once completed), whichever store calls fail on the way.
\<close>

theorem ui_run_status_monotone:
  "sorted (map (\<lambda>w. doc_rank w cmrId) (ui_run F cmrId userId as w))"
proof (induction as arbitrary: w)
  case Nil
  show ?case by simp
next
  case (Cons a as)
  define w' where
    "w' = (if (case doc_status w cmrId of None \<Rightarrow> False | Some s \<Rightarrow> offered s a)
           then snd (performCmrAction F cmrId userId a w) else w)"
  obtain ws where ws: "ui_run F cmrId userId as w' = w' # ws"
    using ui_run_hd by blast
  have step: "doc_rank w cmrId \<le> doc_rank w' cmrId"
    unfolding w'_def by (simp add: offered_step split: option.splits)
  have run: "ui_run F cmrId userId (a # as) w = w # w' # ws"
    using ws by (simp add: w'_def)
  have "sorted (map (\<lambda>w. doc_rank w cmrId) (w' # ws))"
    using Cons.IH [of w'] ws by simp
  with step show ?case
    unfolding run by (simp only: list.map sorted2 simp_thms)
qed

theorem ui_run_status_monotone_witness:
  "map (\<lambda>w. doc_rank w ''c1'')
     (ui_run no_faults ''c1'' ''u1'' [''loading_start'', ''delivery_start'']
        (world0 ''ready_to_load'')) = [1, 2, 2]
   \<and> sorted [1, 2, 2 :: nat]"
proof -
  have run: "map (\<lambda>w. doc_rank w ''c1'')
     (ui_run no_faults ''c1'' ''u1'' [''loading_start'', ''delivery_start'']
        (world0 ''ready_to_load'')) = [1, 2, 2]"
    by (simp add: performCmrAction_def startLoading_def insert_cmr_event_def
          update_status_def issue_def no_faults_def world0_def doc0_def doc_rank_def
          doc_status_def status_rank_def offered_def)
  from ui_run_status_monotone [of "''c1''" no_faults "''u1''"
         "[''loading_start'', ''delivery_start'']" "world0 ''ready_to_load''"]
  show ?thesis unfolding run by simp
qed

text \<open>
  C3, as stated, fails: \<open>loading_start\<close> invoked on a completed document succeeds and
  sets its status back to \<open>loading\<close>.
\<close>

theorem loading_start_moves_status_backward:
  "fst (performCmrAction no_faults ''c1'' ''u1'' ''loading_start'' (world0 ''completed''))
     = Inr ()
   \<and> doc_status (world0 ''completed'') ''c1'' = Some ''completed''
   \<and> doc_status (snd (performCmrAction no_faults ''c1'' ''u1'' ''loading_start''
         (world0 ''completed''))) ''c1'' = Some ''loading''
   \<and> doc_rank (snd (performCmrAction no_faults ''c1'' ''u1'' ''loading_start''
         (world0 ''completed''))) ''c1''
       < doc_rank (world0 ''completed'') ''c1''"
  by (simp add: performCmrAction_def startLoading_def insert_cmr_event_def update_status_def
        issue_def no_faults_def world0_def doc0_def doc_rank_def doc_status_def status_rank_def)

subsection \<open>The order of the two writes\<close>

lemma startLoading_writes:
  assumes "fst (startLoading F cmrId userId w) = Inr ()"
  shows "writes w (snd (startLoading F cmrId userId w)) =
     [InsertEvent \<lparr>CmrEvent.cmr_id = cmrId, CmrEvent.user_id = userId,
                    type' = ''loading_start'', metadata = JObject []\<rparr>,
      UpdateStatus cmrId ''loading'']"
proof -
  let ?ev = "\<lparr>CmrEvent.cmr_id = cmrId, CmrEvent.user_id = userId,
              type' = ''loading_start'', metadata = JObject []\<rparr>"
  show ?thesis
  proof (cases "F (calls w) (InsertEvent ?ev)")
    case (Some e)
    with assms show ?thesis by (simp add: startLoading_def insert_cmr_event_def)
  next
    case None
    show ?thesis
    proof (cases "F (calls w @ [InsertEvent ?ev]) (UpdateStatus cmrId ''loading'')")
      case (Some e)
      with assms None show ?thesis
        by (simp add: startLoading_def insert_cmr_event_def update_status_def issue_def)
    next
      case n: None
      with None show ?thesis
        by (simp add: startLoading_def insert_cmr_event_def update_status_def issue_def
              writes_def new_calls_def)
    qed
  qed
qed

lemma startDelivery_writes:
  assumes "fst (startDelivery F cmrId userId w) = Inr ()"
  shows "writes w (snd (startDelivery F cmrId userId w)) =
     [InsertEvent \<lparr>CmrEvent.cmr_id = cmrId, CmrEvent.user_id = userId,
                    type' = ''delivery_start'', metadata = JObject []\<rparr>,
      UpdateStatus cmrId ''ready_to_deliver'']"
proof -
  let ?ev = "\<lparr>CmrEvent.cmr_id = cmrId, CmrEvent.user_id = userId,
              type' = ''delivery_start'', metadata = JObject []\<rparr>"
  show ?thesis
  proof (cases "F (calls w) (InsertEvent ?ev)")
    case (Some e)
    with assms show ?thesis by (simp add: startDelivery_def insert_cmr_event_def)
  next
    case None
    show ?thesis
    proof (cases "F (calls w @ [InsertEvent ?ev]) (UpdateStatus cmrId ''ready_to_deliver'')")
      case (Some e)
      with assms None show ?thesis
        by (simp add: startDelivery_def insert_cmr_event_def update_status_def issue_def)
    next
      case n: None
      with None show ?thesis
        by (simp add: startDelivery_def insert_cmr_event_def update_status_def issue_def
              writes_def new_calls_def)
    qed
  qed
qed

lemma endLoading_writes:
  assumes "fst (endLoading F cmrId userId w) = Inr ()"
  shows "writes w (snd (endLoading F cmrId userId w)) =
     [InsertEvent \<lparr>CmrEvent.cmr_id = cmrId, CmrEvent.user_id = userId,
                    type' = ''loading_end'', metadata = JObject []\<rparr>,
      UpdateStatus cmrId ''in_transit'']"
proof -
  let ?ev = "\<lparr>CmrEvent.cmr_id = cmrId, CmrEvent.user_id = userId,
              type' = ''loading_end'', metadata = JObject []\<rparr>"
  let ?q = "SelectSignatures cmrId ''shipper''"
  let ?rows = "filter (\<lambda>r. CmrSignature.cmr_id r = cmrId \<and> party_type r = ''shipper'')
                 (cmr_signatures w)"
  note defs = limit1_empty endLoading_def select_signatures_def
  show ?thesis
  proof (cases "F (calls w) ?q")
    case (Some e)
    with assms show ?thesis by (simp add: defs)
  next
    case q: None
    show ?thesis
    proof (cases "?rows = []")
      case True
      with assms q show ?thesis by (simp add: defs)
    next
      case rows: False
      show ?thesis
      proof (cases "F (calls w @ [?q]) (InsertEvent ?ev)")
        case (Some e)
        with assms q rows show ?thesis
          by (simp add: defs insert_cmr_event_def issue_def)
      next
        case ev: None
        show ?thesis
        proof (cases "F (calls w @ [?q, InsertEvent ?ev]) (UpdateStatus cmrId ''in_transit'')")
          case (Some e)
          with assms q rows ev show ?thesis
            by (simp add: defs insert_cmr_event_def update_status_def issue_def)
        next
          case None
          with q rows ev show ?thesis
            by (simp add: defs insert_cmr_event_def update_status_def issue_def
                  writes_def new_calls_def)
        qed
      qed
    qed
  qed
qed

lemma completeDelivery_writes:
  assumes "fst (completeDelivery F cmrId userId w) = Inr ()"
  shows "writes w (snd (completeDelivery F cmrId userId w)) =
     (let hasReserves = (\<exists>r \<in> set (cmr_reserves w). CmrReserve.cmr_id r = cmrId);
          finalStatus = (if hasReserves then ''completed_with_reserves'' else ''completed'')
      in [UpdateStatus cmrId finalStatus,
          InsertEvent \<lparr>CmrEvent.cmr_id = cmrId, CmrEvent.user_id = userId,
                        type' = ''delivery_end'',
                        metadata = JObject [(''status'', JString finalStatus),
                                            (''has_reserves'', JBoolean hasReserves)]\<rparr>])"
proof -
  let ?h = "\<exists>r \<in> set (cmr_reserves w). CmrReserve.cmr_id r = cmrId"
  let ?fs = "if ?h then ''completed_with_reserves'' else ''completed''"
  let ?ev = "\<lparr>CmrEvent.cmr_id = cmrId, CmrEvent.user_id = userId, type' = ''delivery_end'',
              metadata = JObject [(''status'', JString ?fs), (''has_reserves'', JBoolean ?h)]\<rparr>"
  let ?q = "SelectReserves cmrId"
  note defs = completeDelivery_def select_reserves_def Let_def reserves_exist_iff limit1_empty
  show ?thesis
  proof (cases "F (calls w) ?q")
    case (Some e)
    with assms show ?thesis by (simp add: defs)
  next
    case q: None
    show ?thesis
    proof (cases "F (calls w @ [?q]) (UpdateStatus cmrId ?fs)")
      case (Some e)
      with assms q show ?thesis by (simp add: defs update_status_def issue_def)
    next
      case u: None
      show ?thesis
      proof (cases "F (calls w @ [?q, UpdateStatus cmrId ?fs]) (InsertEvent ?ev)")
        case (Some e)
        with assms q u show ?thesis
          by (simp add: defs update_status_def insert_cmr_event_def issue_def)
      next
        case None
        with q u show ?thesis
          by (simp add: defs update_status_def insert_cmr_event_def issue_def
                writes_def new_calls_def)
      qed
    qed
  qed
qed

text \<open>
  C4, as the code has it. A successful \<open>loading_start\<close>, \<open>loading_end\<close> or
  \<open>delivery_start\<close> issues exactly two writes, the Event insert and then the status
  update; a successful \<open>delivery_end\<close> issues them in the other order, the status
  update and then the Event insert.
\<close>

theorem lifecycle_write_order:
  assumes "fst (performCmrAction F cmrId userId type w) = Inr ()"
  shows "writes w (snd (performCmrAction F cmrId userId type w)) =
     (if type = ''delivery_end''
      then (let hasReserves = (\<exists>r \<in> set (cmr_reserves w). CmrReserve.cmr_id r = cmrId);
                finalStatus = (if hasReserves then ''completed_with_reserves'' else ''completed'')
            in [UpdateStatus cmrId finalStatus,
                InsertEvent \<lparr>CmrEvent.cmr_id = cmrId, CmrEvent.user_id = userId,
                              type' = ''delivery_end'',
                              metadata = JObject [(''status'', JString finalStatus),
                                                  (''has_reserves'', JBoolean hasReserves)]\<rparr>])
      else [InsertEvent \<lparr>CmrEvent.cmr_id = cmrId, CmrEvent.user_id = userId,
                          type' = type, metadata = JObject []\<rparr>,
            UpdateStatus cmrId (target_status type)])"
proof (cases "type = ''loading_start''")
  case True
  with assms show ?thesis
    by (simp add: dispatch startLoading_writes target_status_def)
next
  case ls: False
  show ?thesis
  proof (cases "type = ''loading_end''")
    case True
    with assms show ?thesis
      by (simp add: dispatch endLoading_writes target_status_def)
  next
    case le: False
    show ?thesis
    proof (cases "type = ''delivery_start''")
      case True
      with assms show ?thesis
        by (simp add: dispatch startDelivery_writes target_status_def)
    next
      case dst: False
      show ?thesis
      proof (cases "type = ''delivery_end''")
        case True
        with assms show ?thesis
          by (simp add: dispatch completeDelivery_writes)
      next
        case False
        with assms ls le dst show ?thesis
          by (simp add: performCmrAction_def)
      qed
    qed
  qed
qed

theorem lifecycle_write_order_witness:
  "fst (performCmrAction no_faults ''c1'' ''u1'' ''loading_start'' (world0 ''ready_to_load''))
     = Inr ()
   \<and> writes (world0 ''ready_to_load'')
        (snd (performCmrAction no_faults ''c1'' ''u1'' ''loading_start'' (world0 ''ready_to_load'')))
     = [InsertEvent \<lparr>CmrEvent.cmr_id = ''c1'', CmrEvent.user_id = ''u1'',
                      type' = ''loading_start'', metadata = JObject []\<rparr>,
        UpdateStatus ''c1'' ''loading'']"
proof -
  have h: "fst (performCmrAction no_faults ''c1'' ''u1'' ''loading_start''
                  (world0 ''ready_to_load'')) = Inr ()"
    by (simp add: dispatch startLoading_def insert_cmr_event_def update_status_def
          issue_def no_faults_def)
  from lifecycle_write_order [OF h] h show ?thesis
    by (simp add: target_status_def)
qed

text \<open>
  C4, as stated, fails for \<open>delivery_end\<close>: its first write is the status update, the
  Event insert comes second.
\<close>

theorem delivery_end_writes_status_first:
  "fst (performCmrAction no_faults ''c1'' ''u1'' ''delivery_end'' (world0 ''ready_to_deliver''))
     = Inr ()
   \<and> writes (world0 ''ready_to_deliver'')
        (snd (performCmrAction no_faults ''c1'' ''u1'' ''delivery_end''
           (world0 ''ready_to_deliver'')))
     = [UpdateStatus ''c1'' ''completed'',
        InsertEvent \<lparr>CmrEvent.cmr_id = ''c1'', CmrEvent.user_id = ''u1'',
                      type' = ''delivery_end'',
                      metadata = JObject [(''status'', JString ''completed''),
                                          (''has_reserves'', JBoolean False)]\<rparr>]
   \<and> \<not> event_then_status (writes (world0 ''ready_to_deliver'')
        (snd (performCmrAction no_faults ''c1'' ''u1'' ''delivery_end''
           (world0 ''ready_to_deliver''))))"
  by (simp add: performCmrAction_def completeDelivery_def select_reserves_def
        insert_cmr_event_def update_status_def issue_def no_faults_def world0_def
        writes_def new_calls_def Let_def)


subsection \<open>Photo upload\<close>

text \<open>
  C10, as the code has it. Let the binary upload succeed. If the insert of the photo row
  then fails, \<open>uploadCmrPhoto\<close> issues the removal of the binary just uploaded before
  it throws \<open>Failed to save photo record: ...\<close>, and no row is added. The removal is
  best effort, its answer is discarded: when it succeeds the bucket is as it was before
  the call, and when it fails too the binary stays at the path, without a row. If the
  insert succeeds, the function returns the inserted row extended with its public URL.
\<close>

theorem uploadCmrPhoto_cleanup:
  assumes names:
    "fileName = photoFileName E file cmrId userId"
    "up = StorageUpload ''cmr-photos'' fileName"
    "ins = InsertPhoto cmrId userId fileName"
    "rm = StorageRemove ''cmr-photos'' [fileName]"
  assumes upload_ok: "F (calls w) up = None" "photo_bucket w fileName = None"
  shows "(\<forall>m. F (calls w @ [up]) ins = Some m \<longrightarrow>
            uploadCmrPhoto F E file cmrId userId w =
              (Inl (Error (''Failed to save photo record: '' @ m)),
               w\<lparr>calls := calls w @ [up, ins, rm],
                  photo_bucket :=
                    (case F (calls w @ [up, ins]) rm of
                       None \<Rightarrow> photo_bucket w
                     | Some e \<Rightarrow> (photo_bucket w)(fileName \<mapsto> bytes file))\<rparr>))
       \<and> (F (calls w @ [up]) ins = None \<longrightarrow>
            uploadCmrPhoto F E file cmrId userId w =
              (let row = \<lparr>CmrPhoto.cmr_id = cmrId, CmrPhoto.created_at = newCreatedAt E,
                          CmrPhoto.id' = newPhotoId E, CmrPhoto.storage_path = fileName,
                          CmrPhoto.user_id = userId\<rparr>
               in (Inr (CmrPhoto.extend row
                     (CmrPhotoWithUrl.fields (getPublicUrl E ''cmr-photos'' fileName))),
                   w\<lparr>calls := calls w @ [up, ins],
                      photo_bucket := (photo_bucket w)(fileName \<mapsto> bytes file),
                      cmr_photos := cmr_photos w @ [row]\<rparr>)))"
proof -
  have restore: "(\<lambda>p. if p = photoFileName E file cmrId userId then None
                    else photo_bucket w p) = photo_bucket w"
    using upload_ok(2) unfolding names by auto
  show ?thesis
    using upload_ok
    unfolding names(2-4) names(1)
    by (simp add: uploadCmrPhoto_def storage_upload_def insert_cmr_photo_def
          storage_remove_def issue_def Let_def restore
          split: option.splits cong: if_cong)
qed

theorem uploadCmrPhoto_cleanup_witness:
  "photoFileName upload_env0 file0 ''c1'' ''u1'' = ''u1/c1/1700000000000_k3x9q.jpg''
   \<and> uploadCmrPhoto insert_photo_fails upload_env0 file0 ''c1'' ''u1'' (world0 ''loading'') =
       (Inl (Error ''Failed to save photo record: connection lost''),
        (world0 ''loading'')
          \<lparr>calls := [StorageUpload ''cmr-photos'' ''u1/c1/1700000000000_k3x9q.jpg'',
                     InsertPhoto ''c1'' ''u1'' ''u1/c1/1700000000000_k3x9q.jpg'',
                     StorageRemove ''cmr-photos'' [''u1/c1/1700000000000_k3x9q.jpg'']]\<rparr>)
   \<and> uploadCmrPhoto insert_and_remove_fail upload_env0 file0 ''c1'' ''u1''
         (world0 ''loading'') =
       (Inl (Error ''Failed to save photo record: connection lost''),
        (world0 ''loading'')
          \<lparr>calls := [StorageUpload ''cmr-photos'' ''u1/c1/1700000000000_k3x9q.jpg'',
                     InsertPhoto ''c1'' ''u1'' ''u1/c1/1700000000000_k3x9q.jpg'',
                     StorageRemove ''cmr-photos'' [''u1/c1/1700000000000_k3x9q.jpg'']],
           photo_bucket := [''u1/c1/1700000000000_k3x9q.jpg'' \<mapsto> ''JFIF'']\<rparr>)
   \<and> fst (uploadCmrPhoto no_faults upload_env0 file0 ''c1'' ''u1'' (world0 ''loading'')) =
       Inr \<lparr>CmrPhoto.cmr_id = ''c1'', CmrPhoto.created_at = ''2025-01-03'',
            CmrPhoto.id' = ''p1'',
            CmrPhoto.storage_path = ''u1/c1/1700000000000_k3x9q.jpg'',
            CmrPhoto.user_id = ''u1'',
            url = ''https://store/cmr-photos/u1/c1/1700000000000_k3x9q.jpg''\<rparr>"
proof -
  let ?w = "world0 ''loading''"
  let ?fn = "photoFileName upload_env0 file0 ''c1'' ''u1''"
  have fn: "?fn = ''u1/c1/1700000000000_k3x9q.jpg''"
    by (simp add: photoFileName_def upload_env0_def file0_def fileExt_def)
  have free: "photo_bucket ?w ?fn = None"
    by (simp add: world0_def)
  have up1: "insert_photo_fails (calls ?w) (StorageUpload ''cmr-photos'' ?fn) = None"
    by simp
  have up2: "no_faults (calls ?w) (StorageUpload ''cmr-photos'' ?fn) = None"
    by (simp add: no_faults_def)
  have up3: "insert_and_remove_fail (calls ?w) (StorageUpload ''cmr-photos'' ?fn) = None"
    by simp
  note fails = uploadCmrPhoto_cleanup
      [of _ upload_env0 file0 "''c1''" "''u1''" _ _ _ insert_photo_fails "?w",
       OF refl refl refl refl up1 free, THEN conjunct1, rule_format,
       of "''connection lost''"]
  note orphan = uploadCmrPhoto_cleanup
      [of _ upload_env0 file0 "''c1''" "''u1''" _ _ _ insert_and_remove_fail "?w",
       OF refl refl refl refl up3 free, THEN conjunct1, rule_format,
       of "''connection lost''"]
  note succeeds = uploadCmrPhoto_cleanup
      [of _ upload_env0 file0 "''c1''" "''u1''" _ _ _ no_faults "?w",
       OF refl refl refl refl up2 free, THEN conjunct2, rule_format]
  have a: "uploadCmrPhoto insert_photo_fails upload_env0 file0 ''c1'' ''u1'' ?w =
       (Inl (Error ''Failed to save photo record: connection lost''),
        ?w\<lparr>calls := [StorageUpload ''cmr-photos'' ?fn, InsertPhoto ''c1'' ''u1'' ?fn,
                      StorageRemove ''cmr-photos'' [?fn]]\<rparr>)"
    by (subst fails) (simp_all add: world0_def)
  have c: "uploadCmrPhoto insert_and_remove_fail upload_env0 file0 ''c1'' ''u1'' ?w =
       (Inl (Error ''Failed to save photo record: connection lost''),
        ?w\<lparr>calls := [StorageUpload ''cmr-photos'' ?fn, InsertPhoto ''c1'' ''u1'' ?fn,
                      StorageRemove ''cmr-photos'' [?fn]],
           photo_bucket := [?fn \<mapsto> ''JFIF'']\<rparr>)"
    by (subst orphan) (simp_all add: world0_def file0_def)
  have b: "fst (uploadCmrPhoto no_faults upload_env0 file0 ''c1'' ''u1'' ?w) =
       Inr \<lparr>CmrPhoto.cmr_id = ''c1'', CmrPhoto.created_at = ''2025-01-03'',
            CmrPhoto.id' = ''p1'', CmrPhoto.storage_path = ?fn, CmrPhoto.user_id = ''u1'',
            url = ''https://store/cmr-photos/'' @ ?fn\<rparr>"
    by (subst succeeds)
       (simp_all add: no_faults_def Let_def upload_env0_def CmrPhoto.extend_def
          CmrPhotoWithUrl.fields_def CmrPhoto.defs CmrPhotoWithUrl.defs)
  from a b c show ?thesis
    unfolding fn by simp
qed

text \<open>
  C10, as stated, fails: when the insert and then the removal both fail, the function
  throws and the uploaded binary stays in the bucket although no row refers to it.
\<close>

theorem uploadCmrPhoto_leaves_binary_when_removal_fails:
  "fst (uploadCmrPhoto insert_and_remove_fail upload_env0 file0 ''c1'' ''u1''
          (world0 ''loading''))
     = Inl (Error ''Failed to save photo record: connection lost'')
   \<and> photo_bucket (world0 ''loading'') ''u1/c1/1700000000000_k3x9q.jpg'' = None
   \<and> photo_bucket (snd (uploadCmrPhoto insert_and_remove_fail upload_env0 file0 ''c1'' ''u1''
          (world0 ''loading''))) ''u1/c1/1700000000000_k3x9q.jpg'' = Some ''JFIF''
   \<and> cmr_photos (snd (uploadCmrPhoto insert_and_remove_fail upload_env0 file0 ''c1'' ''u1''
          (world0 ''loading''))) = []
   \<and> calls (snd (uploadCmrPhoto insert_and_remove_fail upload_env0 file0 ''c1'' ''u1''
          (world0 ''loading''))) =
       [StorageUpload ''cmr-photos'' ''u1/c1/1700000000000_k3x9q.jpg'',
        InsertPhoto ''c1'' ''u1'' ''u1/c1/1700000000000_k3x9q.jpg'',
        StorageRemove ''cmr-photos'' [''u1/c1/1700000000000_k3x9q.jpg'']]"
  by (simp add: uploadCmrPhoto_def storage_upload_def insert_cmr_photo_def
        storage_remove_def issue_def Let_def photoFileName_def fileExt_def upload_env0_def
        file0_def world0_def)


subsection \<open>The export pipeline\<close>

text \<open>The footer loop appends its six calls to every page and changes nothing else.\<close>

lemma stampPage_eq:
  assumes "1 \<le> i" "i \<le> length (pages d)"
  shows "stampPage E clock n i d =
           \<lparr>pages = (pages d)[i - 1 := pages d ! (i - 1) @ footerOps E clock n i],
            currentPage = i\<rparr>"
  using assms
  by (simp add: stampPage_def setPage_def emit_def Let_def footerOps_def)

lemma fold_stampPage:
  "k \<le> length (pages d) \<Longrightarrow>
   length (pages (fold (stampPage E clock n) [1 ..< k + 1] d)) = length (pages d) \<and>
   (\<forall>j < length (pages d).
      pages (fold (stampPage E clock n) [1 ..< k + 1] d) ! j =
        (if j < k then pages d ! j @ footerOps E clock n (j + 1) else pages d ! j))"
proof (induction k)
  case 0
  show ?case by simp
next
  case (Suc k)
  let ?d = "fold (stampPage E clock n) [1 ..< k + 1] d"
  from Suc have IH: "length (pages ?d) = length (pages d)"
    "\<And>j. j < length (pages d) \<Longrightarrow> pages ?d ! j =
        (if j < k then pages d ! j @ footerOps E clock n (j + 1) else pages d ! j)"
    by auto
  have step: "fold (stampPage E clock n) [1 ..< Suc k + 1] d = stampPage E clock n (Suc k) ?d"
    by simp
  have eq: "stampPage E clock n (Suc k) ?d =
      \<lparr>pages = (pages ?d)[k := pages ?d ! k @ footerOps E clock n (Suc k)],
       currentPage = Suc k\<rparr>"
    using stampPage_eq [of "Suc k" ?d E clock n] Suc.prems IH(1) by simp
  show ?case
    unfolding step eq using IH Suc.prems
    by (auto simp: nth_list_update less_Suc_eq)
qed

lemma footer_pages:
  "length (pages (footer E clock d)) = length (pages d) \<and>
   (\<forall>j < length (pages d).
      pages (footer E clock d) ! j =
        pages d ! j @ footerOps E clock (length (pages d)) (j + 1))"
  using fold_stampPage [of "length (pages d)" d E clock "length (pages d)"]
  by (simp add: footer_def Let_def)

text \<open>
  C6. Two renderings of the same aggregate in the same environment (page metrics,
  formats and the outcome of each image fetch), made at different times, have the same
  number of pages and the same calls on every page, except the last call of each page:
  the footer line \<open>Generated on <time> - Page i of n\<close>, which differs in the time only.
\<close>

theorem generateCmrPdf_deterministic_up_to_timestamp:
  "length (pages (generateCmrPdf E c1 opts)) = length (pages (generateCmrPdf E c2 opts))
   \<and> map butlast (pages (generateCmrPdf E c1 opts))
       = map butlast (pages (generateCmrPdf E c2 opts))
   \<and> (\<forall>i < length (pages (generateCmrPdf E c1 opts)).
         last (pages (generateCmrPdf E c1 opts) ! i) =
           Text (footerText E c1 (length (pages (generateCmrPdf E c1 opts))) (i + 1))
             (pageWidth E / 2) (pageHeight E - 10) (Some ''center'')
       \<and> last (pages (generateCmrPdf E c2 opts) ! i) =
           Text (footerText E c2 (length (pages (generateCmrPdf E c1 opts))) (i + 1))
             (pageWidth E / 2) (pageHeight E - 10) (Some ''center''))"
proof -
  let ?d = "pdf (content E opts)"
  note f1 = footer_pages [of E c1 ?d] and f2 = footer_pages [of E c2 ?d]
  have len: "length (pages (generateCmrPdf E c1 opts)) = length (pages ?d)"
    "length (pages (generateCmrPdf E c2 opts)) = length (pages ?d)"
    using f1 f2 by (simp_all add: generateCmrPdf_def)
  have "map butlast (pages (generateCmrPdf E c1 opts))
          = map butlast (pages (generateCmrPdf E c2 opts))"
  proof (rule nth_equalityI)
    show "length (map butlast (pages (generateCmrPdf E c1 opts)))
            = length (map butlast (pages (generateCmrPdf E c2 opts)))"
      using len by simp
  next
    fix i assume "i < length (map butlast (pages (generateCmrPdf E c1 opts)))"
    then have i: "i < length (pages ?d)" using len by simp
    with f1 f2 len
    show "map butlast (pages (generateCmrPdf E c1 opts)) ! i
            = map butlast (pages (generateCmrPdf E c2 opts)) ! i"
      by (simp add: generateCmrPdf_def butlast_append footerOps_def)
  qed
  moreover have "last (pages (generateCmrPdf E c opts) ! i) =
           Text (footerText E c (length (pages ?d)) (i + 1))
             (pageWidth E / 2) (pageHeight E - 10) (Some ''center'')"
    if "i < length (pages ?d)" for i c
    using footer_pages [of E c ?d] that by (simp add: generateCmrPdf_def footerOps_def)
  ultimately show ?thesis using len by simp
qed

lemma opts0_page_count: "length (pages (generateCmrPdf env0 clock0 opts0)) = 2"
  by code_simp

theorem generateCmrPdf_deterministic_up_to_timestamp_witness:
  "length (pages (generateCmrPdf env0 clock0 opts0)) = 2
   \<and> length (pages (generateCmrPdf env0 clock1 opts0)) = 2
   \<and> map butlast (pages (generateCmrPdf env0 clock0 opts0))
       = map butlast (pages (generateCmrPdf env0 clock1 opts0))
   \<and> last (pages (generateCmrPdf env0 clock0 opts0) ! 0) =
       Text ''Generated on 2025-01-05T12:00 - Page 1 of 2'' 105 287 (Some ''center'')
   \<and> last (pages (generateCmrPdf env0 clock1 opts0) ! 0) =
       Text ''Generated on 2025-02-09T08:30 - Page 1 of 2'' 105 287 (Some ''center'')"
proof -
  note det = generateCmrPdf_deterministic_up_to_timestamp [of env0 clock0 opts0 clock1]
  have i: "0 < length (pages (generateCmrPdf env0 clock0 opts0))"
    by (simp add: opts0_page_count)
  have t0: "footerText env0 clock0 2 (0 + 1) = ''Generated on 2025-01-05T12:00 - Page 1 of 2''"
    and t1: "footerText env0 clock1 2 (0 + 1) = ''Generated on 2025-02-09T08:30 - Page 1 of 2''"
    by code_simp+
  have m: "pageWidth env0 / 2 = 105" "pageHeight env0 - 10 = 287"
    by (simp_all add: env0_def)
  from det i show ?thesis
    unfolding opts0_page_count
    by (metis t0 t1 m)
qed

text \<open>
  What the \<^verbatim>\<open>catch\<close> blocks do. When a reserve photo cannot be fetched, nothing is
  drawn: the calls recorded are those of the same reserve without a photo, and only the
  page break check made before the fetch remains. The photo loop writes a placeholder at
  the cursor.
\<close>

lemma concat_pages_checkPageBreak:
  "concat (pages (pdf (snd (checkPageBreak E requiredSpace s)))) = concat (pages (pdf s))"
  by (simp add: checkPageBreak_def addPage_def)

lemma reserveItem_failed_photo_draws_nothing:
  assumes "truthy (ReserveWithUrl.photoUrl r)"
    and "fetchDataUrl E (str (ReserveWithUrl.photoUrl r)) = None"
  shows "concat (pages (pdf (reserveItem E r s)))
           = concat (pages (pdf (reserveItem E (r\<lparr>ReserveWithUrl.photoUrl := None\<rparr>) s)))"
  using assms
  by (simp add: reserveItem_def Let_def tryAddImage_def advance_def
        concat_pages_checkPageBreak truthy_def)

lemma photoItem_failed_photo_draws_placeholder:
  assumes "truthy (PhotoWithUrl.photoUrl p)"
    and "fetchDataUrl E (str (PhotoWithUrl.photoUrl p)) = None"
  shows "photoItem E p s =
           (let s = snd (checkPageBreak E 70 s);
                s = draw (SetFont ''helvetica'' ''italic'') s;
                s = draw (SetFontSize 8) s;
                s = draw (Text ''[Photo not available]'' leftMargin (yPos s) None) s
            in advance lineHeight s)"
  using assms by (simp add: photoItem_def Let_def tryAddImage_def)

text \<open>
  C5, at an input where the code departs from it. The aggregate \<open>opts0\<close> has a photo, a
  loading reserve with a photo and a shipper signature, and none of the three images can
  be fetched. The export does not abort, and its second page carries a placeholder for
  the photo and one for the signature; but after the comment of the reserve comes the
  next section, with nothing in place of the reserve photo.
\<close>

theorem export_with_unreachable_images:
  "texts (pages (generateCmrPdf env0 clock0 opts0) ! 1) =
     [''[Photo not available]'', ''23-24. RESERVES & OBSERVATIONS'',
      ''23. Reserves at Loading (R'' @ e_acute @ ''serves au chargement)'',
      bullet @ '' Damaged packaging'', ''two boxes wet'', ''SIGNATURES'',
      ''Shipper / Sender Signature (Signature de l'exp'' @ e_acute @ ''diteur)'',
      ''Name: Ann'', ''Signed: 2025-01-02T10:00'', ''[Signature image not available]'',
      ''This digital CMR document is a legally valid transport contract under the CMR Convention'',
      ''Generated on 2025-01-05T12:00 - Page 2 of 2'']"
  by code_simp


subsection \<open>Page breaks\<close>


lemma list_all_update_append:
  "list_all (list_all P) (ps[i := ps ! i @ [c]]) =
     (list_all (list_all P) ps \<and> (i < length ps \<longrightarrow> P c))"
proof (induction ps arbitrary: i)
  case Nil
  show ?case by simp
next
  case (Cons p ps)
  show ?case by (cases i) (auto simp: Cons.IH)
qed

lemma above_draw [simp]: "fitsPage E c \<Longrightarrow> aboveMargin E (draw c s) = aboveMargin E s"
  by (auto simp: aboveMargin_def draw_def emit_def list_all_update_append)

lemma above_advance [simp]: "aboveMargin E (advance d s) = aboveMargin E s"
  by (simp add: aboveMargin_def advance_def)

lemma yPos_draw [simp]: "yPos (draw c s) = yPos s"
  by (simp add: draw_def)

lemma yPos_advance [simp]: "yPos (advance d s) = yPos s + d"
  by (simp add: advance_def)

lemma above_check [simp]: "aboveMargin E (snd (checkPageBreak E r s)) = aboveMargin E s"
  by (simp add: aboveMargin_def checkPageBreak_def addPage_def)

text \<open>After a check for \<open>r\<close>, anything not higher than \<open>r\<close> fits at the cursor.\<close>

lemma yPos_check:
  "r' \<le> r \<Longrightarrow> 40 + r \<le> pageHeight E \<Longrightarrow>
   yPos (snd (checkPageBreak E r s)) + r' \<le> pageHeight E - 20"
  by (simp add: checkPageBreak_def)

lemma above_addText [simp]:
  "110 \<le> pageHeight E \<Longrightarrow> aboveMargin E (addText E t f b x s) = aboveMargin E s"
  using yPos_check [of lineHeight lineHeight E s]
  by (simp add: addText_def Let_def lineHeight_def)

lemma above_addSubSection [simp]:
  "110 \<le> pageHeight E \<Longrightarrow> aboveMargin E (addSubSection E t f s) = aboveMargin E s"
  using yPos_check [of lineHeight lineHeight E s]
  by (simp add: addSubSection_def Let_def lineHeight_def)

lemma above_addTwoColumns [simp]:
  "110 \<le> pageHeight E \<Longrightarrow> aboveMargin E (addTwoColumns E l r f s) = aboveMargin E s"
  using yPos_check [of lineHeight lineHeight E s]
  by (simp add: addTwoColumns_def Let_def lineHeight_def)

lemma above_addSection [simp]:
  "110 \<le> pageHeight E \<Longrightarrow> aboveMargin E (addSection E t bx s) = aboveMargin E s"
  using yPos_check [of 10 10 E s]
  by (simp add: addSection_def Let_def lineHeight_def)

lemma above_fold:
  "(\<And>x s. aboveMargin E (f x s) = aboveMargin E s) \<Longrightarrow>
   aboveMargin E (fold f xs s) = aboveMargin E s"
  by (induction xs arbitrary: s) simp_all

lemma above_addWrapped [simp]:
  "110 \<le> pageHeight E \<Longrightarrow> aboveMargin E (addWrapped E t w s) = aboveMargin E s"
  by (simp add: addWrapped_def above_fold)


lemma above_carrier [simp]:
  "110 \<le> pageHeight E \<Longrightarrow> aboveMargin E (carrier E pr s) = aboveMargin E s"
  by (simp add: carrier_def Let_def split: option.splits)

lemma above_additionalParties [simp]:
  "110 \<le> pageHeight E \<Longrightarrow> aboveMargin E (additionalParties E c s) = aboveMargin E s"
  by (simp add: additionalParties_def Let_def)

lemma above_parties [simp]:
  "110 \<le> pageHeight E \<Longrightarrow> aboveMargin E (parties E opts s) = aboveMargin E s"
  by (simp add: parties_def Let_def)

lemma above_actualTimestamps [simp]:
  "110 \<le> pageHeight E \<Longrightarrow> aboveMargin E (actualTimestamps E a d s) = aboveMargin E s"
  by (simp add: actualTimestamps_def Let_def)

lemma above_loadingAndDelivery [simp]:
  "110 \<le> pageHeight E \<Longrightarrow> aboveMargin E (loadingAndDelivery E c s) = aboveMargin E s"
  by (simp add: loadingAndDelivery_def Let_def)

lemma above_goods [simp]:
  "110 \<le> pageHeight E \<Longrightarrow> aboveMargin E (goods E c s) = aboveMargin E s"
  by (simp add: goods_def Let_def)

lemma above_dangerousGoods [simp]:
  "110 \<le> pageHeight E \<Longrightarrow> aboveMargin E (dangerousGoods E c s) = aboveMargin E s"
  using yPos_check [of 20 25 E s]
  by (simp add: dangerousGoods_def Let_def)

lemma above_temperatureControl [simp]:
  "110 \<le> pageHeight E \<Longrightarrow> aboveMargin E (temperatureControl E c s) = aboveMargin E s"
  using yPos_check [of 12 15 E s]
  by (simp add: temperatureControl_def Let_def)

lemma above_palletExchange [simp]:
  "110 \<le> pageHeight E \<Longrightarrow> aboveMargin E (palletExchange E c s) = aboveMargin E s"
  by (simp add: palletExchange_def Let_def)

lemma above_pallets [simp]:
  "110 \<le> pageHeight E \<Longrightarrow> aboveMargin E (pallets E c s) = aboveMargin E s"
  by (simp add: pallets_def Let_def)

lemma above_attachedDocuments [simp]:
  "110 \<le> pageHeight E \<Longrightarrow> aboveMargin E (attachedDocuments E c s) = aboveMargin E s"
  by (simp add: attachedDocuments_def Let_def)

lemma above_instructionsSection [simp]:
  "110 \<le> pageHeight E \<Longrightarrow> aboveMargin E (instructionsSection E c s) = aboveMargin E s"
  by (simp add: instructionsSection_def Let_def)

lemma above_financial [simp]:
  "110 \<le> pageHeight E \<Longrightarrow> aboveMargin E (financial E c s) = aboveMargin E s"
proof -
  assume ph: "110 \<le> pageHeight E"
  have box: "yPos (snd (checkPageBreak E 12 st)) + 10 \<le> pageHeight E - 20" for st
    using yPos_check [of 10 12 E st] ph by simp
  show ?thesis
    using ph by (simp add: financial_def Let_def box)
qed

lemma above_tryAddImage:
  assumes "h \<le> r" "40 + r \<le> pageHeight E"
  shows "aboveMargin E (snd (tryAddImage E u fmt r x w h s)) = aboveMargin E s"
  using assms yPos_check [of h r E s]
  by (simp add: tryAddImage_def Let_def split: option.splits)

lemma above_photoItem:
  assumes "110 \<le> pageHeight E"
  shows "aboveMargin E (photoItem E p s) = aboveMargin E s"
  using assms yPos_check [of 65 70 E s] yPos_check [of lineHeight 70 E s]
  by (simp add: photoItem_def tryAddImage_def Let_def lineHeight_def split: option.splits)

lemma above_photosSection [simp]:
  "110 \<le> pageHeight E \<Longrightarrow> aboveMargin E (photosSection E ps s) = aboveMargin E s"
  by (simp add: photosSection_def Let_def above_fold above_photoItem)

lemma above_commentLines:
  assumes "110 \<le> pageHeight E"
  shows "aboveMargin E
           (fold (\<lambda>line s. advance 6
                    (draw (Text line x (yPos (snd (checkPageBreak E 6 s))) None)
                       (snd (checkPageBreak E 6 s)))) ls s) = aboveMargin E s"
proof (induction ls arbitrary: s)
  case Nil
  show ?case by simp
next
  case (Cons l ls)
  have "yPos (snd (checkPageBreak E 6 s)) + 6 \<le> pageHeight E - 20"
    using yPos_check [of 6 6 E s] assms by simp
  then show ?case
    by (simp add: Cons.IH lineHeight_def)
qed

lemma above_reserveItem:
  assumes "110 \<le> pageHeight E"
  shows "aboveMargin E (reserveItem E r s) = aboveMargin E s"
proof -
  have title: "yPos (snd (checkPageBreak E 35 s)) + 6 \<le> pageHeight E - 20"
    using yPos_check [of 6 35 E s] assms by simp
  show ?thesis
    using assms title
    by (simp add: reserveItem_def Let_def lineHeight_def above_tryAddImage
          above_commentLines)
qed

lemma above_reservesSection [simp]:
  "110 \<le> pageHeight E \<Longrightarrow> aboveMargin E (reservesSection E rs s) = aboveMargin E s"
  by (simp add: reservesSection_def Let_def above_fold above_reserveItem)

lemma above_signatureBlock:
  assumes "110 \<le> pageHeight E"
  shows "aboveMargin E (signatureBlock E title sg s) = aboveMargin E s"
proof -
  have img: "yPos (snd (checkPageBreak E 35 st)) + 30 \<le> pageHeight E - 20"
    and plc: "yPos (snd (checkPageBreak E 35 st)) + 6 \<le> pageHeight E - 20" for st
    using yPos_check [of 30 35 E st] yPos_check [of 6 35 E st] assms by simp_all
  show ?thesis
    using assms
    by (simp add: signatureBlock_def tryAddImage_def Let_def lineHeight_def img plc
          split: option.splits)
qed

lemma above_signatures [simp]:
  "110 \<le> pageHeight E \<Longrightarrow> aboveMargin E (signatures E opts s) = aboveMargin E s"
  by (simp add: signatures_def Let_def above_signatureBlock split: option.splits)






end
